theory Spec2Isabelle
  imports Main "HOL-Library.Word"
begin

unbundle bit_operations_syntax

section \<open>Runtime patching of alternative instruction sequences (arch/arm64/kernel/alternative.c)\<close>

subsection \<open>Machine types\<close>

type_synonym u8 = "8 word"
type_synonym u16 = "16 word"
type_synonym u32 = "32 word"
type_synonym s32 = "32 word"
type_synonym u64 = "64 word"

subsection \<open>Patch-site descriptors\<close>

text \<open>
  Modelled from the spec: \<open>struct alt_instr\<close> is declared in \<open>asm/alternative.h\<close>, which is
  not among the sources. The spec's PatchSite has an original range (address and length), a
  replacement range (address and length) and a required capability. \<open>orig_ptr\<close> and
  \<open>repl_ptr\<close> are the values of \<open>ALT_ORIG_PTR(alt)\<close> and \<open>ALT_REPL_PTR(alt)\<close>, that is
  the self-relative offsets of the descriptor already resolved to addresses; lengths are
  unsigned byte counts of 8 bits and the capability is an unsigned 16-bit number.
\<close>

record alt_instr =
  orig_ptr :: u64
  repl_ptr :: u64
  cpufeature :: u16
  orig_len :: u8
  alt_len :: u8

subsection \<open>Collaborators\<close>

text \<open>
  The functions that alternative.c calls and that live elsewhere in the kernel are parameters
  of the model: the section lookups of \<open>kernel/extable.c\<close>, the capability query of
  \<open>asm/cpufeature.h\<close>, the linear-map alias of an image address, the instruction codec of
  \<open>arch/arm64/kernel/insn.c\<close>, and the linker-provided table
  \<open>__alt_instructions .. __alt_instructions_end\<close>. The last parameter is the address
  translation in force while the file runs: \<open>page_frame\<close> gives the physical frame of each
  virtual page of 4096 bytes (a translation with larger pages is a special case).
\<close>

record env =
  kernel_text_address :: "u64 \<Rightarrow> bool"
  core_kernel_data :: "u64 \<Rightarrow> bool"
  cpus_have_cap :: "u16 \<Rightarrow> bool"
  lm_alias :: "u64 \<Rightarrow> u64"
  aarch64_insn_is_branch_imm :: "u32 \<Rightarrow> bool"
  aarch64_get_branch_offset :: "u32 \<Rightarrow> s32"
  aarch64_set_branch_offset :: "u32 \<Rightarrow> s32 \<Rightarrow> u32"
  aarch64_insn_is_adrp :: "u32 \<Rightarrow> bool"
  aarch64_insn_adrp_get_offset :: "u32 \<Rightarrow> s32"
  aarch64_insn_adrp_set_offset :: "u32 \<Rightarrow> s32 \<Rightarrow> u32"
  aarch64_insn_is_adr :: "u32 \<Rightarrow> bool"
  aarch64_insn_adr_get_offset :: "u32 \<Rightarrow> s32"
  aarch64_insn_uses_literal :: "u32 \<Rightarrow> bool"
  alt_instructions :: "alt_instr list"
  page_frame :: "u64 \<Rightarrow> u64"

subsection \<open>Memory\<close>

text \<open>
  Modelled from the spec: the destination of the whole-image pass is "an alias address for
  the same physical bytes but reached through a different virtual mapping" (4.2, step 3).
  Memory is therefore a store from physical byte addresses to bytes, and every load and
  store of the program goes from the virtual address it uses to the physical byte through
  the translation: the frame of the page, and the offset within the page unchanged. A word
  stored through one virtual address is read back through every other virtual address of
  the same physical bytes.

  \<open>unsigned long\<close> and pointers are 64 bits wide; pointer arithmetic on \<open>__le32 *\<close>
  advances by four bytes per element and wraps around like every \<open>u64\<close> operation.
\<close>

type_synonym memory = "u64 \<Rightarrow> u8"

definition phys_addr :: "env \<Rightarrow> u64 \<Rightarrow> u64" where
  "phys_addr e a = push_bit 12 (page_frame e (drop_bit 12 a)) OR (a AND 0xFFF)"

text \<open>\<open>le32_to_cpu(*p)\<close>: the four bytes at \<open>p\<close>, least significant first.\<close>

definition read_le32 :: "env \<Rightarrow> memory \<Rightarrow> u64 \<Rightarrow> u32" where
  "read_le32 e m p =
     ucast (m (phys_addr e p)) OR push_bit 8 (ucast (m (phys_addr e (p + 1)))) OR
     push_bit 16 (ucast (m (phys_addr e (p + 2)))) OR
     push_bit 24 (ucast (m (phys_addr e (p + 3))))"

text \<open>\<open>*p = cpu_to_le32(v)\<close>: the four bytes of \<open>v\<close> stored at \<open>p\<close>, least significant first.\<close>

definition write_le32 :: "env \<Rightarrow> memory \<Rightarrow> u64 \<Rightarrow> u32 \<Rightarrow> memory" where
  "write_le32 e m p v =
     m(phys_addr e p := ucast v, phys_addr e (p + 1) := ucast (drop_bit 8 v),
       phys_addr e (p + 2) := ucast (drop_bit 16 v),
       phys_addr e (p + 3) := ucast (drop_bit 24 v))"

subsection \<open>Fatal stops\<close>

text \<open>Each \<open>BUG()\<close> and \<open>BUG_ON()\<close> of the file is one constructor.\<close>

datatype bug =
    BUG_cannot_decide       \<comment> \<open>\<open>BUG()\<close> at the end of \<open>address_needs_relocation_fixup\<close>\<close>
  | BUG_adr_outside         \<comment> \<open>\<open>BUG()\<close> in the adr branch of \<open>get_alt_insn\<close>\<close>
  | BUG_uses_literal        \<comment> \<open>\<open>BUG()\<close> in the literal branch of \<open>get_alt_insn\<close>\<close>
  | BUG_ON_len_mismatch     \<comment> \<open>\<open>BUG_ON(alt->alt_len != alt->orig_len)\<close>\<close>
  | BUG_ON_patched          \<comment> \<open>\<open>BUG_ON(patched)\<close>\<close>

subsection \<open>The instruction relocator\<close>

definition address_needs_relocation_fixup :: "env \<Rightarrow> alt_instr \<Rightarrow> u64 \<Rightarrow> bug + bool" where
  "address_needs_relocation_fixup e alt addr =
     (if kernel_text_address e addr \<or> core_kernel_data e addr then Inr True
      else let replptr = repl_ptr alt in
        if addr \<ge> replptr \<and> addr \<le> replptr + ucast (alt_len alt) then Inr False
        else Inl BUG_cannot_decide)"

text \<open>\<open>#define align_down(x, a) ((unsigned long)(x) & ~(((unsigned long)(a)) - 1))\<close>\<close>

definition align_down :: "u64 \<Rightarrow> u64 \<Rightarrow> u64" where
  "align_down x a = x AND NOT (a - 1)"

text \<open>
  Modelled from the spec: \<open>SZ_4K\<close> comes from \<open>linux/sizes.h\<close>, which is not among
  the sources; the spec gives the page size of the page-relative load as 4096 bytes.
\<close>

definition SZ_4K :: u64 where
  "SZ_4K = 0x1000"

text \<open>
  \<open>get_alt_insn(alt, insnptr, altinsnptr)\<close>. An \<open>s32\<close> offset added to an
  \<open>unsigned long\<close> is sign-extended (\<open>scast\<close>); an \<open>unsigned long\<close> difference stored
  in an \<open>s32\<close> keeps its low 32 bits (\<open>ucast\<close>).
\<close>

definition get_alt_insn :: "env \<Rightarrow> alt_instr \<Rightarrow> u64 \<Rightarrow> u64 \<Rightarrow> memory \<Rightarrow> bug + u32" where
  "get_alt_insn e alt insnptr altinsnptr m =
     (let insn = read_le32 e m altinsnptr in
      if aarch64_insn_is_branch_imm e insn then
        (let offset = aarch64_get_branch_offset e insn;
             target = altinsnptr + scast offset
         in case address_needs_relocation_fixup e alt target of
              Inl b \<Rightarrow> Inl b
            | Inr True \<Rightarrow> Inr (aarch64_set_branch_offset e insn (ucast (target - insnptr)))
            | Inr False \<Rightarrow> Inr insn)
      else if aarch64_insn_is_adrp e insn then
        (let orig_offset = aarch64_insn_adrp_get_offset e insn;
             target = align_down altinsnptr SZ_4K + scast orig_offset
         in case address_needs_relocation_fixup e alt target of
              Inl b \<Rightarrow> Inl b
            | Inr True \<Rightarrow>
                Inr (aarch64_insn_adrp_set_offset e insn
                       (ucast (target - align_down insnptr SZ_4K)))
            | Inr False \<Rightarrow> Inr insn)
      else if aarch64_insn_is_adr e insn then
        (let offset = aarch64_insn_adr_get_offset e insn;
             target = altinsnptr + scast offset
         in case address_needs_relocation_fixup e alt target of
              Inl b \<Rightarrow> Inl b
            | Inr True \<Rightarrow> Inl BUG_adr_outside
            | Inr False \<Rightarrow> Inr insn)
      else if aarch64_insn_uses_literal e insn then Inl BUG_uses_literal
      else Inr insn)"

subsection \<open>The patch applier\<close>

text \<open>
  The state the file reads and writes: physical memory, the calls of \<open>flush_icache_range\<close> made so
  far (start and end of each), the console with the once-flag of \<open>pr_info_once\<close>, the
  static flag \<open>patched\<close> and the number of \<open>isb()\<close> executed. A fatal stop carries the
  state in which the machine stopped.
\<close>

record state =
  mem :: memory
  flushed :: "(u64 \<times> u64) list"
  console :: "string list"
  printed_once :: bool
  patched :: int
  isb_count :: nat

type_synonym outcome = "(bug \<times> state) + state"

text \<open>\<open>pr_info_once("patching kernel code\n")\<close> with \<open>pr_fmt\<close> of the file.\<close>

definition pr_info_once :: "state \<Rightarrow> state" where
  "pr_info_once s =
     (if printed_once s then s
      else s\<lparr>console := console s @ [''alternatives: patching kernel code'' @ [CHR 0x0A]],
             printed_once := True\<rparr>)"

text \<open>
  The inner loop \<open>for (i = 0; i < nr_inst; i++)\<close>, started at \<open>i\<close>: slot \<open>i\<close> of the
  replacement is read, relocated for the original location and stored through \<open>updptr\<close>.
\<close>

function patch_insns ::
  "env \<Rightarrow> alt_instr \<Rightarrow> u64 \<Rightarrow> u64 \<Rightarrow> u64 \<Rightarrow> nat \<Rightarrow> nat \<Rightarrow> state \<Rightarrow> outcome" where
  "patch_insns e alt origptr replptr updptr nr_inst i s =
     (if i < nr_inst then
        (case get_alt_insn e alt (origptr + 4 * of_nat i) (replptr + 4 * of_nat i) (mem s) of
           Inl b \<Rightarrow> Inl (b, s)
         | Inr insn \<Rightarrow>
             patch_insns e alt origptr replptr updptr nr_inst (i + 1)
               (s\<lparr>mem := write_le32 e (mem s) (updptr + 4 * of_nat i) insn\<rparr>))
      else Inr s)"
  by pat_completeness auto
termination
  by (relation "measure (\<lambda>(e, alt, origptr, replptr, updptr, nr_inst, i, s). nr_inst - i)") auto

declare patch_insns.simps [simp del]

definition flush_icache_range :: "u64 \<Rightarrow> u64 \<Rightarrow> state \<Rightarrow> state" where
  "flush_icache_range start end' s = s\<lparr>flushed := flushed s @ [(start, end')]\<rparr>"

text \<open>One iteration of the outer loop of \<open>__apply_alternatives\<close>: the body for one descriptor.\<close>

definition apply_alt :: "env \<Rightarrow> bool \<Rightarrow> alt_instr \<Rightarrow> state \<Rightarrow> outcome" where
  "apply_alt e use_linear_alias alt s =
     (if \<not> cpus_have_cap e (cpufeature alt) then Inr s
      else if alt_len alt \<noteq> orig_len alt then Inl (BUG_ON_len_mismatch, s)
      else
        (let s1 = pr_info_once s;
             origptr = orig_ptr alt;
             replptr = repl_ptr alt;
             updptr = (if use_linear_alias then lm_alias e origptr else origptr);
             nr_inst = unat (alt_len alt) div 4
         in case patch_insns e alt origptr replptr updptr nr_inst 0 s1 of
              Inl err \<Rightarrow> Inl err
            | Inr s2 \<Rightarrow>
                Inr (flush_icache_range origptr (origptr + 4 * of_nat nr_inst) s2)))"

text \<open>
  \<open>__apply_alternatives(region, use_linear_alias)\<close>: the region is the list of the
  descriptors from \<open>region->begin\<close> up to \<open>region->end\<close>, visited in order.
\<close>

fun do_apply_alternatives :: "env \<Rightarrow> alt_instr list \<Rightarrow> bool \<Rightarrow> state \<Rightarrow> outcome" where
  "do_apply_alternatives e [] use_linear_alias s = Inr s"
| "do_apply_alternatives e (alt # region) use_linear_alias s =
     (case apply_alt e use_linear_alias alt s of
        Inl err \<Rightarrow> Inl err
      | Inr s' \<Rightarrow> do_apply_alternatives e region use_linear_alias s')"

text \<open>\<open>apply_alternatives(start, length)\<close>: the region given by the caller, patched in place.\<close>

definition apply_alternatives :: "env \<Rightarrow> alt_instr list \<Rightarrow> state \<Rightarrow> outcome" where
  "apply_alternatives e region s = do_apply_alternatives e region False s"

subsection \<open>The stop-machine callback\<close>

text \<open>
  \<open>while (!READ_ONCE(patched)) cpu_relax();\<close> as one core sees it on its own: the loop
  returns once the flag is set and does not return while it stays clear.
\<close>

partial_function (option) wait_for_patched :: "state \<Rightarrow> state option" where
  "wait_for_patched s = (if patched s = 0 then wait_for_patched s else Some s)"

definition isb :: "state \<Rightarrow> state" where
  "isb s = s\<lparr>isb_count := isb_count s + 1\<rparr>"

text \<open>
  \<open>__apply_alternatives_multi_stop\<close> on the core with number \<open>cpu\<close>
  (\<open>smp_processor_id()\<close>); \<open>None\<close> is a core that never returns.
  \<open>apply_alternatives_all\<close> hands this callback to \<open>stop_machine\<close>, which runs it
  on every online core; the model is the callback on one core.
\<close>

definition apply_alternatives_multi_stop :: "env \<Rightarrow> nat \<Rightarrow> state \<Rightarrow> outcome option" where
  "apply_alternatives_multi_stop e cpu s =
     (if cpu \<noteq> 0 then
        (case wait_for_patched s of
           None \<Rightarrow> None
         | Some s' \<Rightarrow> Some (Inr (isb s')))
      else if patched s \<noteq> 0 then Some (Inl (BUG_ON_patched, s))
      else
        (case do_apply_alternatives e (alt_instructions e) True s of
           Inl err \<Rightarrow> Some (Inl err)
         | Inr s' \<Rightarrow> Some (Inr (s'\<lparr>patched := 1\<rparr>))))"

subsection \<open>A sample platform\<close>

text \<open>
  A concrete instance of the collaborators, used to run the model on explicit inputs. The
  codec covers four A64 instruction classes: \<open>B\<close>/\<open>BL\<close> (26-bit word offset),
  \<open>ADRP\<close> and \<open>ADR\<close> (21-bit immediate split in two fields) and the literal loads.
  Kernel text is \<open>[0xffff000008080000, 0xffff000008a00000)\<close>, core kernel data is
  \<open>[0xffff000008e00000, 0xffff000009000000)\<close>, and capabilities 1 and 4 are present. The
  linear alias of an image address lies \<open>2^47\<close> above it, and the translation keeps the
  low 47 bits of an address, so that an address and its alias are the same physical byte.
\<close>

definition sample_alt :: alt_instr where
  "sample_alt = \<lparr>orig_ptr = 0xffff000008100400, repl_ptr = 0xffff000008c00100,
                 cpufeature = 4, orig_len = 8, alt_len = 8\<rparr>"

definition skipped_alt :: alt_instr where
  "skipped_alt = \<lparr>orig_ptr = 0xffff000008100800, repl_ptr = 0xffff000008c00200,
                  cpufeature = 2, orig_len = 4, alt_len = 8\<rparr>"

text \<open>A site whose capability is absent and whose original range is that of \<open>sample_alt\<close>.\<close>

definition absent_same :: alt_instr where
  "absent_same = \<lparr>orig_ptr = 0xffff000008100400, repl_ptr = 0xffff000008c00200,
                  cpufeature = 2, orig_len = 8, alt_len = 8\<rparr>"

text \<open>Two sites with the replacement block of \<open>sample_alt\<close>, \<open>2^32\<close> and \<open>2^28\<close> bytes above its branch target.\<close>

definition far_alt :: alt_instr where
  "far_alt = \<lparr>orig_ptr = 0xffff000108100000, repl_ptr = 0xffff000008c00100,
              cpufeature = 4, orig_len = 8, alt_len = 8\<rparr>"


definition unrelocatable_alt :: alt_instr where
  "unrelocatable_alt = \<lparr>orig_ptr = 0xffff000008100c00, repl_ptr = 0xffff000008c00300,
                        cpufeature = 4, orig_len = 8, alt_len = 8\<rparr>"

definition mismatch_alt :: alt_instr where
  "mismatch_alt = \<lparr>orig_ptr = 0xffff000008101000, repl_ptr = 0xffff000008c00100,
                   cpufeature = 1, orig_len = 8, alt_len = 4\<rparr>"

definition odd_alt :: alt_instr where
  "odd_alt = \<lparr>orig_ptr = 0xffff000008100400, repl_ptr = 0xffff000008c00100,
              cpufeature = 4, orig_len = 6, alt_len = 6\<rparr>"

definition sample_env :: env where
  "sample_env = \<lparr>
     kernel_text_address = (\<lambda>a. 0xffff000008080000 \<le> a \<and> a < 0xffff000008a00000),
     core_kernel_data = (\<lambda>a. 0xffff000008e00000 \<le> a \<and> a < 0xffff000009000000),
     cpus_have_cap = (\<lambda>n. n = 1 \<or> n = 4),
     lm_alias = (\<lambda>a. a + 0x0000800000000000),
     aarch64_insn_is_branch_imm = (\<lambda>insn. insn AND 0x7C000000 = 0x14000000),
     aarch64_get_branch_offset =
       (\<lambda>insn. signed_drop_bit 4 (push_bit 6 (insn AND 0x03FFFFFF))),
     aarch64_set_branch_offset =
       (\<lambda>insn offset. (insn AND NOT 0x03FFFFFF) OR (signed_drop_bit 2 offset AND 0x03FFFFFF)),
     aarch64_insn_is_adrp = (\<lambda>insn. insn AND 0x9F000000 = 0x90000000),
     aarch64_insn_adrp_get_offset =
       (\<lambda>insn. push_bit 12 (push_bit 2 (drop_bit 5 insn AND 0x7FFFF) OR (drop_bit 29 insn AND 3))),
     aarch64_insn_adrp_set_offset =
       (\<lambda>insn offset. (insn AND NOT 0x60FFFFE0) OR
          push_bit 29 (signed_drop_bit 12 offset AND 3) OR
          push_bit 5 (drop_bit 2 (signed_drop_bit 12 offset) AND 0x7FFFF)),
     aarch64_insn_is_adr = (\<lambda>insn. insn AND 0x9F000000 = 0x10000000),
     aarch64_insn_adr_get_offset =
       (\<lambda>insn. push_bit 2 (drop_bit 5 insn AND 0x7FFFF) OR (drop_bit 29 insn AND 3)),
     aarch64_insn_uses_literal =
       (\<lambda>insn. insn AND 0xBF000000 = 0x18000000 \<or> insn AND 0x1F000000 = 0x10000000),
     alt_instructions = [skipped_alt, sample_alt],
     page_frame = (\<lambda>page. page AND 0x7FFFFFFFF)
   \<rparr>"

text \<open>
  The sample memory, zero except for six instruction words, stored through these addresses:
  \<^item> \<open>0xffff000008c00100\<close>: \<open>b 0xffff000008100000\<close> (a function in kernel text);
  \<^item> \<open>0xffff000008c00104\<close>: \<open>adrp x0, 0xffff000008e01000\<close> (a page of kernel data);
  \<^item> \<open>0xffff000008c00200\<close>: \<open>b .+8\<close> (to the end of the block of \<open>skipped_alt\<close>);
  \<^item> \<open>0xffff000008c00204\<close>: \<open>adr x0, .+4\<close> (the same end address);
  \<^item> \<open>0xffff000008c00300\<close>: \<open>adr x0, .+0x100\<close>;
  \<^item> \<open>0xffff000008c00304\<close>: \<open>ldr x0, .+8\<close> (a literal load).
\<close>

definition sample_mem :: memory where
  "sample_mem =
     write_le32 sample_env (write_le32 sample_env (write_le32 sample_env
     (write_le32 sample_env (write_le32 sample_env (write_le32 sample_env (\<lambda>a. 0)
       0xffff000008c00100 0x17D3FFC0)
       0xffff000008c00104 0xB0001000)
       0xffff000008c00200 0x14000002)
       0xffff000008c00204 0x10000020)
       0xffff000008c00300 0x10000800)
       0xffff000008c00304 0x58000040"

definition sample_state :: state where
  "sample_state = \<lparr>mem = sample_mem, flushed = [], console = [], printed_once = False,
                    patched = 0, isb_count = 0\<rparr>"

text \<open>
  The sample state after the whole-image pass on the designated core: the two words are
  stored through the linear alias of \<open>0xffff000008100400\<close>.
\<close>

definition sample_state_patched :: state where
  "sample_state_patched =
     \<lparr>mem = write_le32 sample_env (write_le32 sample_env sample_mem
                0xffff800008100400 0x17FFFF00)
                0xffff800008100404 0xB0006800,
      flushed = [(0xffff000008100400, 0xffff000008100408)],
      console = [''alternatives: patching kernel code'' @ [CHR 0x0A]],
      printed_once = True, patched = 1, isb_count = 0\<rparr>"

text \<open>The sample state after \<open>odd_alt\<close>, six bytes long, has been applied in place.\<close>

definition sample_state_odd :: state where
  "sample_state_odd =
     \<lparr>mem = write_le32 sample_env sample_mem 0xffff000008100400 0x17FFFF00,
      flushed = [(0xffff000008100400, 0xffff000008100404)],
      console = [''alternatives: patching kernel code'' @ [CHR 0x0A]],
      printed_once = True, patched = 0, isb_count = 0\<rparr>"

section \<open>Properties\<close>

subsection \<open>Memory and address arithmetic\<close>

text \<open>The translation keeps the offset within the page.\<close>

lemma phys_addr_low: "take_bit 12 (phys_addr e a) = take_bit 12 a"
proof -
  have "(0xFFF :: u64) = mask 12"
    by (simp add: mask_eq_decr_exp)
  then have "phys_addr e a = push_bit 12 (page_frame e (drop_bit 12 a)) OR take_bit 12 a"
    by (simp add: phys_addr_def take_bit_eq_mask)
  then show ?thesis
    by (intro bit_word_eqI) (auto simp: bit_simps)
qed

lemma word_add_of_nat_low_neq:
  assumes "k < 4096" and "k' < 4096" and "k \<noteq> k'"
  shows "take_bit 12 ((u::u64) + of_nat k) \<noteq> take_bit 12 (u + of_nat k')"
proof
  assume eq: "take_bit 12 (u + of_nat k) = take_bit 12 (u + of_nat k')"
  have low: "unat (take_bit 12 ((u::u64) + of_nat j)) = (unat u + j) mod 4096" if "j < 4096" for j
  proof -
    have "unat (of_nat j :: u64) = j"
      using that by (simp add: unat_of_nat take_bit_nat_eq_self)
    then have "unat (u + of_nat j) = (unat u + j) mod 2 ^ 64"
      by (simp add: unat_word_ariths)
    moreover have "(unat u + j) mod 2 ^ 64 mod 4096 = (unat u + j) mod 4096"
      by (rule mod_mod_cancel) simp
    ultimately show ?thesis
      unfolding unsigned_take_bit_eq by (simp add: take_bit_eq_mod)
  qed
  from eq have "unat (take_bit 12 (u + of_nat k)) = unat (take_bit 12 (u + of_nat k'))"
    by simp
  with assms low have m: "(unat u + k) mod 4096 = (unat u + k') mod 4096"
    by simp
  show False
  proof (cases "k < k'")
    case True
    then have "unat u + k \<le> unat u + k'" by simp
    from mod_eq_dvd_iff_nat[OF this, of 4096] m[symmetric] have "(4096::nat) dvd k' - k"
      by simp
    moreover from True assms have "0 < k' - k" "k' - k < 4096" by simp_all
    ultimately show False
      using dvd_imp_le[of 4096 "k' - k"] by simp
  next
    case False
    with assms have lt: "k' < k" by simp
    then have "unat u + k' \<le> unat u + k" by simp
    from mod_eq_dvd_iff_nat[OF this, of 4096] m have "(4096::nat) dvd k - k'"
      by simp
    moreover from lt assms have "0 < k - k'" "k - k' < 4096" by simp_all
    ultimately show False
      using dvd_imp_le[of 4096 "k - k'"] by simp
  qed
qed

text \<open>Two different bytes less than a page apart are two different physical bytes.\<close>

lemma phys_addr_neq:
  assumes "k < 4096" and "k' < 4096" and "k \<noteq> k'"
  shows "phys_addr e (u + of_nat k) \<noteq> phys_addr e (u + of_nat k')"
proof
  assume "phys_addr e (u + of_nat k) = phys_addr e (u + of_nat k')"
  then have "take_bit 12 (phys_addr e (u + of_nat k)) = take_bit 12 (phys_addr e (u + of_nat k'))"
    by simp
  then have "take_bit 12 (u + of_nat k) = take_bit 12 (u + of_nat k')"
    by (simp only: phys_addr_low)
  with word_add_of_nat_low_neq[OF assms] show False
    by blast
qed

lemma phys_addr_word_bytes:
  "phys_addr e (p + 1) \<noteq> phys_addr e p" "phys_addr e (p + 2) \<noteq> phys_addr e p"
  "phys_addr e (p + 3) \<noteq> phys_addr e p" "phys_addr e (p + 2) \<noteq> phys_addr e (p + 1)"
  "phys_addr e (p + 3) \<noteq> phys_addr e (p + 1)" "phys_addr e (p + 3) \<noteq> phys_addr e (p + 2)"
  using phys_addr_neq[of 1 0 e p] phys_addr_neq[of 2 0 e p] phys_addr_neq[of 3 0 e p]
    phys_addr_neq[of 2 1 e p] phys_addr_neq[of 3 1 e p] phys_addr_neq[of 3 2 e p]
  by simp_all

lemma read_le32_write_le32_same: "read_le32 e (write_le32 e m p v) p = v"
proof (rule bit_word_eqI)
  fix n :: nat
  assume n: "n < LENGTH(32)"
  note defs = read_le32_def write_le32_def phys_addr_word_bytes phys_addr_word_bytes[symmetric]
  consider "n < 8" | "8 \<le> n" "n < 16" | "16 \<le> n" "n < 24" | "24 \<le> n" "n < 32"
    using n by fastforce
  then show "bit (read_le32 e (write_le32 e m p v) p) n = bit v n"
  proof cases
    case 1 then show ?thesis by (simp add: defs bit_simps)
  next
    case 2 then show ?thesis by (auto simp add: defs bit_simps)
  next
    case 3 then show ?thesis by (auto simp add: defs bit_simps)
  next
    case 4 then show ?thesis by (auto simp add: defs bit_simps)
  qed
qed

lemma read_le32_cong:
  "m1 (phys_addr e p) = m2 (phys_addr e p) \<Longrightarrow>
   m1 (phys_addr e (p + 1)) = m2 (phys_addr e (p + 1)) \<Longrightarrow>
   m1 (phys_addr e (p + 2)) = m2 (phys_addr e (p + 2)) \<Longrightarrow>
   m1 (phys_addr e (p + 3)) = m2 (phys_addr e (p + 3)) \<Longrightarrow>
   read_le32 e m1 p = read_le32 e m2 p"
  by (simp add: read_le32_def)

text \<open>An address at or after the end of a flushed range of at most 255 bytes is not in it.\<close>

lemma tail_outside_flush:
  assumes "4 * n \<le> k" and "k < 256"
  shows "\<not> ((p::u64) \<le> p + of_nat k \<and> p + of_nat k < p + 4 * of_nat n)"
proof -
  have k: "unat (of_nat k :: u64) = k"
    using assms(2) by (simp add: unat_of_nat take_bit_nat_eq_self)
  have n: "unat (4 * of_nat n :: u64) = 4 * n"
  proof -
    have "(4 * of_nat n :: u64) = of_nat (4 * n)" by simp
    moreover have "unat (of_nat (4 * n) :: u64) = 4 * n"
      using assms by (simp only: unat_of_nat) (simp add: take_bit_nat_eq_self)
    ultimately show ?thesis by simp
  qed
  have p: "unat p < 2 ^ 64"
    using unsigned_less[of p] by simp
  show ?thesis
    using assms p
    by (simp add: word_le_nat_alt word_less_nat_alt unat_plus_if' k n) arith
qed

text \<open>A 64-bit difference that fits a signed 32-bit offset survives the round trip through \<open>s32\<close>.\<close>

lemma scast_ucast_s32:
  assumes "- (2 ^ 31) \<le> sint (d::u64)" and "sint d < 2 ^ 31"
  shows "scast (ucast d :: s32) = d"
proof -
  have "sint (ucast d :: s32) = signed_take_bit 31 (take_bit 32 (uint d))"
    by (simp add: sint_uint unsigned_ucast_eq)
  also have "\<dots> = signed_take_bit 31 (uint d)"
    by (simp add: signed_take_bit_take_bit)
  also have "\<dots> = signed_take_bit 31 (sint d)"
    by (simp add: sint_uint)
  also have "\<dots> = sint d"
    using assms by (simp add: signed_take_bit_int_eq_self)
  finally show ?thesis
    by (simp add: scast_eq)
qed

lemma align_down_4K_bits: "align_down x SZ_4K = push_bit 12 (drop_bit 12 x)"
proof -
  have "(0x1000 :: u64) - 1 = mask 12"
    by (simp add: mask_eq_decr_exp)
  then have "align_down x SZ_4K = x AND NOT (mask 12)"
    by (simp add: align_down_def SZ_4K_def)
  also have "\<dots> = push_bit 12 (drop_bit 12 x)"
    by (rule bit_word_eqI) (auto simp: bit_simps)
  finally show ?thesis .
qed

lemma align_down_4K_minus: "align_down x SZ_4K = x - take_bit 12 x"
proof -
  have "push_bit 12 (drop_bit 12 x) + take_bit 12 x = x"
    by (rule bits_ident)
  then show ?thesis
    by (simp add: align_down_4K_bits algebra_simps)
qed

lemma unat_align_down_4K: "unat (align_down x SZ_4K) = unat x - unat x mod 4096"
proof -
  have le: "take_bit 12 x \<le> x"
    by (simp add: word_le_nat_alt unsigned_take_bit_eq take_bit_nat_less_eq_self)
  have "unat (x - take_bit 12 x) = unat x - unat (take_bit 12 x)"
    using le by (simp add: unat_sub)
  moreover have "unat (take_bit 12 x) = unat x mod 4096"
    unfolding unsigned_take_bit_eq by (simp add: take_bit_eq_mod)
  ultimately show ?thesis
    by (simp add: align_down_4K_minus)
qed

text \<open>The collaborators of the sample platform, one by one.\<close>

lemma sample_env_simps:
  "kernel_text_address sample_env = (\<lambda>a. 0xffff000008080000 \<le> a \<and> a < 0xffff000008a00000)"
  "core_kernel_data sample_env = (\<lambda>a. 0xffff000008e00000 \<le> a \<and> a < 0xffff000009000000)"
  "cpus_have_cap sample_env = (\<lambda>n. n = 1 \<or> n = 4)"
  "lm_alias sample_env = (\<lambda>a. a + 0x0000800000000000)"
  "aarch64_insn_is_branch_imm sample_env = (\<lambda>insn. insn AND 0x7C000000 = 0x14000000)"
  "aarch64_get_branch_offset sample_env =
     (\<lambda>insn. signed_drop_bit 4 (push_bit 6 (insn AND 0x03FFFFFF)))"
  "aarch64_set_branch_offset sample_env =
     (\<lambda>insn offset. (insn AND NOT 0x03FFFFFF) OR (signed_drop_bit 2 offset AND 0x03FFFFFF))"
  "aarch64_insn_is_adrp sample_env = (\<lambda>insn. insn AND 0x9F000000 = 0x90000000)"
  "aarch64_insn_adrp_get_offset sample_env =
     (\<lambda>insn. push_bit 12 (push_bit 2 (drop_bit 5 insn AND 0x7FFFF) OR (drop_bit 29 insn AND 3)))"
  "aarch64_insn_adrp_set_offset sample_env =
     (\<lambda>insn offset. (insn AND NOT 0x60FFFFE0) OR
        push_bit 29 (signed_drop_bit 12 offset AND 3) OR
        push_bit 5 (drop_bit 2 (signed_drop_bit 12 offset) AND 0x7FFFF))"
  "aarch64_insn_is_adr sample_env = (\<lambda>insn. insn AND 0x9F000000 = 0x10000000)"
  "aarch64_insn_adr_get_offset sample_env =
     (\<lambda>insn. push_bit 2 (drop_bit 5 insn AND 0x7FFFF) OR (drop_bit 29 insn AND 3))"
  "aarch64_insn_uses_literal sample_env =
     (\<lambda>insn. insn AND 0xBF000000 = 0x18000000 \<or> insn AND 0x1F000000 = 0x10000000)"
  "alt_instructions sample_env = [skipped_alt, sample_alt]"
  by (simp_all add: sample_env_def)

text \<open>The translation on the sample platform, and the alias as the same physical bytes.\<close>

lemma sample_phys_addr: "phys_addr sample_env a = take_bit 47 a"
proof -
  have "(0xFFF :: u64) = mask 12" "(0x7FFFFFFFF :: u64) = mask 35"
    by (simp_all add: mask_eq_decr_exp)
  then have "phys_addr sample_env a = push_bit 12 (take_bit 35 (drop_bit 12 a)) OR take_bit 12 a"
    by (simp add: phys_addr_def sample_env_def take_bit_eq_mask)
  also have "\<dots> = take_bit 47 a"
    by (intro bit_word_eqI) (auto simp: bit_simps)
  finally show ?thesis .
qed

lemma take_bit_47_plus:
  "take_bit 47 ((x::u64) + 0x800000000000) = take_bit 47 x"
proof -
  have "unat (x + 0x800000000000) = (unat x + 2 ^ 47) mod 2 ^ 64"
    by (simp add: unat_word_ariths)
  moreover have "(unat x + 2 ^ 47) mod 2 ^ 64 mod 2 ^ 47 = (unat x + 2 ^ 47) mod 2 ^ 47"
    by (rule mod_mod_cancel) (simp add: le_imp_power_dvd)
  ultimately have "unat (x + 0x800000000000) mod 2 ^ 47 = unat x mod 2 ^ 47"
    by simp
  then have "take_bit 47 (unat (x + 0x800000000000)) = take_bit 47 (unat x)"
    by (simp only: take_bit_eq_mod)
  then have "unat (take_bit 47 (x + 0x800000000000)) = unat (take_bit 47 x)"
    by (simp only: unsigned_take_bit_eq)
  then show ?thesis
    by (simp only: word_unat_eq_iff)
qed

lemma sample_lm_alias_same_bytes:
  "phys_addr sample_env (lm_alias sample_env a + k) = phys_addr sample_env (a + k)"
proof -
  have "lm_alias sample_env a + k = (a + k) + 0x800000000000"
    by (simp add: sample_env_def)
  then have "take_bit 47 (lm_alias sample_env a + k) = take_bit 47 (a + k)"
    by (simp only: take_bit_47_plus)
  then show ?thesis
    by (simp only: sample_phys_addr)
qed

lemma sample_words:
  "read_le32 sample_env sample_mem 0xffff000008c00100 = 0x17D3FFC0"
  "read_le32 sample_env sample_mem 0xffff000008c00104 = 0xB0001000"
  "read_le32 sample_env sample_mem 0xffff000008c00200 = 0x14000002"
  "read_le32 sample_env sample_mem 0xffff000008c00204 = 0x10000020"
  "read_le32 sample_env sample_mem 0xffff000008c00300 = 0x10000800"
  "read_le32 sample_env sample_mem 0xffff000008c00304 = 0x58000040"
  by (simp_all add: sample_mem_def read_le32_def write_le32_def phys_addr_def sample_env_def)

subsection \<open>The inner loop\<close>

text \<open>The inner loop changes nothing but memory, also when it stops on a \<open>BUG()\<close>.\<close>

lemma patch_insns_only_mem:
  "patch_insns e alt origptr replptr updptr nr_inst i s = r \<Longrightarrow>
   (case r of Inl (b, s') \<Rightarrow> s' = s\<lparr>mem := mem s'\<rparr> | Inr s' \<Rightarrow> s' = s\<lparr>mem := mem s'\<rparr>)"
proof (induction e alt origptr replptr updptr nr_inst i s arbitrary: r rule: patch_insns.induct)
  case (1 e alt origptr replptr updptr nr_inst i s)
  show ?case
  proof (cases "i < nr_inst")
    case False
    with "1.prems" show ?thesis
      by (auto simp add: patch_insns.simps)
  next
    case True
    show ?thesis
    proof (cases "get_alt_insn e alt (origptr + 4 * of_nat i) (replptr + 4 * of_nat i) (mem s)")
      case (Inl b)
      with True "1.prems" show ?thesis
        by (auto simp add: patch_insns.simps)
    next
      case (Inr insn)
      let ?s1 = "s\<lparr>mem := write_le32 e (mem s) (updptr + 4 * of_nat i) insn\<rparr>"
      from True Inr "1.prems"
      have "patch_insns e alt origptr replptr updptr nr_inst (i + 1) ?s1 = r"
        by (simp add: patch_insns.simps)
      from "1.IH"[OF True Inr this] show ?thesis
        by (auto split: sum.splits prod.splits)
    qed
  qed
qed

text \<open>Iterations \<open>i\<close> to \<open>nr_inst - 1\<close> write only the bytes of their own slots.\<close>

lemma patch_insns_frame:
  "patch_insns e alt origptr replptr updptr nr_inst i s = r \<Longrightarrow>
   \<forall>k. 4 * i \<le> k \<and> k < 4 * nr_inst \<longrightarrow> a \<noteq> phys_addr e (updptr + of_nat k) \<Longrightarrow>
   (case r of Inl (b, s') \<Rightarrow> mem s' a = mem s a | Inr s' \<Rightarrow> mem s' a = mem s a)"
proof (induction e alt origptr replptr updptr nr_inst i s arbitrary: r rule: patch_insns.induct)
  case (1 e alt origptr replptr updptr nr_inst i s)
  show ?case
  proof (cases "i < nr_inst")
    case False
    with "1.prems" show ?thesis
      by (auto simp add: patch_insns.simps)
  next
    case True
    show ?thesis
    proof (cases "get_alt_insn e alt (origptr + 4 * of_nat i) (replptr + 4 * of_nat i) (mem s)")
      case (Inl b)
      with True "1.prems" show ?thesis
        by (auto simp add: patch_insns.simps)
    next
      case (Inr insn)
      let ?s1 = "s\<lparr>mem := write_le32 e (mem s) (updptr + 4 * of_nat i) insn\<rparr>"
      from True Inr "1.prems"
      have run: "patch_insns e alt origptr replptr updptr nr_inst (i + 1) ?s1 = r"
        by (simp add: patch_insns.simps)
      have later: "\<forall>k. 4 * (i + 1) \<le> k \<and> k < 4 * nr_inst \<longrightarrow>
                     a \<noteq> phys_addr e (updptr + of_nat k)"
        using "1.prems"(2) by simp
      have slot: "a \<noteq> phys_addr e (updptr + of_nat (4 * i + j))" if "j < 4" for j
      proof -
        from True that have "4 * i \<le> 4 * i + j \<and> 4 * i + j < 4 * nr_inst"
          by arith
        with "1.prems"(2) show ?thesis
          by blast
      qed
      have "a \<noteq> phys_addr e (updptr + 4 * of_nat i)"
        "a \<noteq> phys_addr e (updptr + 4 * of_nat i + 1)"
        "a \<noteq> phys_addr e (updptr + 4 * of_nat i + 2)"
        "a \<noteq> phys_addr e (updptr + 4 * of_nat i + 3)"
        using slot[of 0] slot[of 1] slot[of 2] slot[of 3] by (simp_all add: ac_simps)
      then have here: "mem ?s1 a = mem s a"
        by (simp add: write_le32_def)
      from "1.IH"[OF True Inr run later] here show ?thesis
        by (auto split: sum.splits prod.splits)
    qed
  qed
qed

text \<open>The loop up to \<open>nr_inst\<close> is the loop up to \<open>j\<close> followed by the loop from \<open>j\<close>.\<close>

lemma patch_insns_split:
  "i \<le> j \<Longrightarrow> j \<le> nr_inst \<Longrightarrow>
   patch_insns e alt origptr replptr updptr nr_inst i s =
     (case patch_insns e alt origptr replptr updptr j i s of
        Inl err \<Rightarrow> Inl err
      | Inr sj \<Rightarrow> patch_insns e alt origptr replptr updptr nr_inst j sj)"
proof (induction e alt origptr replptr updptr j i s rule: patch_insns.induct)
  case (1 e alt origptr replptr updptr j i s)
  show ?case
  proof (cases "i < j")
    case False
    with "1.prems" have "i = j" by simp
    then show ?thesis
      by (simp add: patch_insns.simps[of _ _ _ _ _ j j])
  next
    case True
    with "1.prems" have lt: "i < nr_inst" by simp
    show ?thesis
    proof (cases "get_alt_insn e alt (origptr + 4 * of_nat i) (replptr + 4 * of_nat i) (mem s)")
      case (Inl b)
      with True lt show ?thesis
        by (simp add: patch_insns.simps[of _ _ _ _ _ _ i])
    next
      case (Inr insn)
      from True have "i + 1 \<le> j" by simp
      from "1.IH"[OF True Inr this "1.prems"(2)] True lt Inr show ?thesis
        by (simp add: patch_insns.simps[of _ _ _ _ _ _ i])
    qed
  qed
qed

text \<open>
  After a complete run, slot \<open>i\<close> of the destination holds what \<open>get_alt_insn\<close> returned
  for slot \<open>i\<close> of the replacement, read when the loop reached it.
\<close>

lemma patch_insns_slot:
  assumes run: "patch_insns e alt origptr replptr updptr nr_inst 0 s = Inr s'"
    and i: "i < nr_inst" and small: "4 * nr_inst \<le> 4096"
  shows "\<exists>si. patch_insns e alt origptr replptr updptr i 0 s = Inr si
          \<and> get_alt_insn e alt (origptr + 4 * of_nat i) (replptr + 4 * of_nat i) (mem si)
              = Inr (read_le32 e (mem s') (updptr + 4 * of_nat i))"
proof -
  from i have "0 \<le> i" "i \<le> nr_inst" by simp_all
  from patch_insns_split[OF this, of e alt origptr replptr updptr s] run
  obtain si where si: "patch_insns e alt origptr replptr updptr i 0 s = Inr si"
    and rest: "patch_insns e alt origptr replptr updptr nr_inst i si = Inr s'"
    by (auto split: sum.splits)
  from rest i obtain insn where
    insn: "get_alt_insn e alt (origptr + 4 * of_nat i) (replptr + 4 * of_nat i) (mem si) = Inr insn"
    and after: "patch_insns e alt origptr replptr updptr nr_inst (i + 1)
                  (si\<lparr>mem := write_le32 e (mem si) (updptr + 4 * of_nat i) insn\<rparr>) = Inr s'"
    by (subst (asm) patch_insns.simps) (auto split: sum.splits)
  have keep: "mem s' (phys_addr e (updptr + of_nat (4 * i + j)))
              = write_le32 e (mem si) (updptr + 4 * of_nat i) insn
                  (phys_addr e (updptr + of_nat (4 * i + j)))"
    if "j < 4" for j
  proof -
    have "\<forall>k. 4 * (i + 1) \<le> k \<and> k < 4 * nr_inst \<longrightarrow>
            phys_addr e (updptr + of_nat (4 * i + j)) \<noteq> phys_addr e (updptr + of_nat k)"
    proof (intro allI impI)
      fix k assume k: "4 * (i + 1) \<le> k \<and> k < 4 * nr_inst"
      with that small have "4 * i + j < 4096" "k < 4096" "4 * i + j \<noteq> k"
        by simp_all
      then show "phys_addr e (updptr + of_nat (4 * i + j)) \<noteq> phys_addr e (updptr + of_nat k)"
        by (rule phys_addr_neq)
    qed
    from patch_insns_frame[OF after this] show ?thesis
      by simp
  qed
  have "read_le32 e (mem s') (updptr + 4 * of_nat i)
        = read_le32 e (write_le32 e (mem si) (updptr + 4 * of_nat i) insn) (updptr + 4 * of_nat i)"
    using keep[of 0] keep[of 1] keep[of 2] keep[of 3]
    by (intro read_le32_cong) (simp_all add: ac_simps)
  with si insn show ?thesis
    by (simp add: read_le32_write_le32_same)
qed

text \<open>
  When no destination byte is physically a byte of the replacement block, slot \<open>i\<close> of the destination
  holds the relocated word of slot \<open>i\<close> of the replacement as it was before the loop.
\<close>

lemma get_alt_insn_cong:
  "read_le32 e m1 altinsnptr = read_le32 e m2 altinsnptr \<Longrightarrow>
   get_alt_insn e alt insnptr altinsnptr m1 = get_alt_insn e alt insnptr altinsnptr m2"
  by (simp add: get_alt_insn_def)

lemma patch_insns_slot_disjoint:
  assumes run: "patch_insns e alt origptr replptr updptr nr_inst 0 s = Inr s'"
    and i: "i < nr_inst" and small: "4 * nr_inst \<le> 4096"
    and apart: "\<forall>k < 4 * nr_inst. \<forall>j < 4 * nr_inst.
                  phys_addr e (updptr + of_nat k) \<noteq> phys_addr e (replptr + of_nat j)"
  shows "get_alt_insn e alt (origptr + 4 * of_nat i) (replptr + 4 * of_nat i) (mem s)
           = Inr (read_le32 e (mem s') (updptr + 4 * of_nat i))"
proof -
  from patch_insns_slot[OF run i small] obtain si where
    si: "patch_insns e alt origptr replptr updptr i 0 s = Inr si"
    and slot: "get_alt_insn e alt (origptr + 4 * of_nat i) (replptr + 4 * of_nat i) (mem si)
                = Inr (read_le32 e (mem s') (updptr + 4 * of_nat i))"
    by blast
  have keep: "mem si (phys_addr e (replptr + of_nat (4 * i + j)))
              = mem s (phys_addr e (replptr + of_nat (4 * i + j)))"
    if "j < 4" for j
  proof -
    from that i have "4 * i + j < 4 * nr_inst"
      by arith
    then have src: "4 * i + j < 4 * nr_inst" .
    have "\<forall>k. 4 * 0 \<le> k \<and> k < 4 * i \<longrightarrow>
        phys_addr e (replptr + of_nat (4 * i + j)) \<noteq> phys_addr e (updptr + of_nat k)"
    proof (intro allI impI)
      fix k assume "4 * 0 \<le> k \<and> k < 4 * i"
      with i have "k < 4 * nr_inst"
        by arith
      from apart[rule_format, OF this src]
      show "phys_addr e (replptr + of_nat (4 * i + j)) \<noteq> phys_addr e (updptr + of_nat k)"
        by (rule not_sym)
    qed
    from patch_insns_frame[OF si this] show ?thesis
      by simp
  qed
  have "read_le32 e (mem si) (replptr + 4 * of_nat i) = read_le32 e (mem s) (replptr + 4 * of_nat i)"
    using keep[of 0] keep[of 1] keep[of 2] keep[of 3]
    by (intro read_le32_cong) (simp_all add: ac_simps)
  from get_alt_insn_cong[OF this] slot show ?thesis
    by simp
qed

subsection \<open>One descriptor and the whole region\<close>

lemma pr_info_once_fields:
  "mem (pr_info_once s) = mem s" "flushed (pr_info_once s) = flushed s"
  "patched (pr_info_once s) = patched s" "isb_count (pr_info_once s) = isb_count s"
  by (simp_all add: pr_info_once_def)

text \<open>The body of the outer loop for a descriptor that is applied.\<close>

lemma apply_alt_applied:
  assumes "cpus_have_cap e (cpufeature alt)" and "orig_len alt = alt_len alt"
  shows "apply_alt e lin alt s =
     (case patch_insns e alt (orig_ptr alt) (repl_ptr alt)
             (if lin then lm_alias e (orig_ptr alt) else orig_ptr alt)
             (unat (alt_len alt) div 4) 0 (pr_info_once s) of
        Inl err \<Rightarrow> Inl err
      | Inr s2 \<Rightarrow> Inr (flush_icache_range (orig_ptr alt)
                        (orig_ptr alt + 4 * of_nat (unat (alt_len alt) div 4)) s2))"
  using assms by (simp add: apply_alt_def Let_def)

lemma apply_alt_patched:
  assumes run: "apply_alt e lin alt s = r"
  shows "case r of Inl (b, s') \<Rightarrow> patched s' = patched s | Inr s' \<Rightarrow> patched s' = patched s"
proof (cases "cpus_have_cap e (cpufeature alt) \<and> orig_len alt = alt_len alt")
  case False
  with run show ?thesis
    by (auto simp: apply_alt_def)
next
  case True
  define p where "p = patch_insns e alt (orig_ptr alt) (repl_ptr alt)
      (if lin then lm_alias e (orig_ptr alt) else orig_ptr alt) (unat (alt_len alt) div 4) 0
      (pr_info_once s)"
  have r: "r = (case p of Inl err \<Rightarrow> Inl err
     | Inr s2 \<Rightarrow> Inr (flush_icache_range (orig_ptr alt)
         (orig_ptr alt + 4 * of_nat (unat (alt_len alt) div 4)) s2))"
    using run True by (simp add: apply_alt_applied p_def)
  have "case p of Inl (b, s') \<Rightarrow> s' = (pr_info_once s)\<lparr>mem := mem s'\<rparr>
                | Inr s' \<Rightarrow> s' = (pr_info_once s)\<lparr>mem := mem s'\<rparr>"
    using p_def[symmetric] by (rule patch_insns_only_mem)
  then have "case p of Inl (b, s') \<Rightarrow> patched s' = patched s | Inr s' \<Rightarrow> patched s' = patched s"
    by (cases p) (auto simp: pr_info_once_fields dest: arg_cong[where f=patched])
  then show ?thesis
    by (cases p) (auto simp: r flush_icache_range_def)
qed

lemma do_apply_alternatives_patched:
  "do_apply_alternatives e region lin s = r \<Longrightarrow>
   (case r of Inl (b, s') \<Rightarrow> patched s' = patched s | Inr s' \<Rightarrow> patched s' = patched s)"
proof (induction region arbitrary: s)
  case Nil
  then show ?case by auto
next
  case (Cons alt region)
  show ?case
  proof (cases "apply_alt e lin alt s")
    case (Inl err)
    with Cons.prems apply_alt_patched[OF Inl] show ?thesis
      by auto
  next
    case (Inr s1)
    with Cons.prems have "do_apply_alternatives e region lin s1 = r"
      by simp
    from Cons.IH[OF this] apply_alt_patched[OF Inr] show ?thesis
      by (auto split: sum.splits)
  qed
qed

lemma do_apply_alternatives_append:
  "do_apply_alternatives e (pre @ post) lin s =
     (case do_apply_alternatives e pre lin s of
        Inl err \<Rightarrow> Inl err
      | Inr s' \<Rightarrow> do_apply_alternatives e post lin s')"
  by (induction pre arbitrary: s) (auto split: sum.splits)

text \<open>Memory changes only at the destination slots of descriptors that are applied.\<close>

lemma apply_alt_frame:
  assumes "apply_alt e lin alt s = r"
    and "cpus_have_cap e (cpufeature alt) \<longrightarrow>
         (\<forall>k < 4 * (unat (alt_len alt) div 4).
            a \<noteq> phys_addr e
                    ((if lin then lm_alias e (orig_ptr alt) else orig_ptr alt) + of_nat k))"
  shows "case r of Inl (b, s') \<Rightarrow> mem s' a = mem s a | Inr s' \<Rightarrow> mem s' a = mem s a"
proof (cases "cpus_have_cap e (cpufeature alt) \<and> orig_len alt = alt_len alt")
  case False
  with assms(1) show ?thesis
    by (auto simp: apply_alt_def)
next
  case True
  define p where "p = patch_insns e alt (orig_ptr alt) (repl_ptr alt)
      (if lin then lm_alias e (orig_ptr alt) else orig_ptr alt) (unat (alt_len alt) div 4) 0
      (pr_info_once s)"
  have r: "r = (case p of Inl err \<Rightarrow> Inl err
     | Inr s2 \<Rightarrow> Inr (flush_icache_range (orig_ptr alt)
         (orig_ptr alt + 4 * of_nat (unat (alt_len alt) div 4)) s2))"
    using assms(1) True by (simp add: apply_alt_applied p_def)
  have "case p of Inl (b, s') \<Rightarrow> mem s' a = mem (pr_info_once s) a
                | Inr s' \<Rightarrow> mem s' a = mem (pr_info_once s) a"
    using assms(2) True by (intro patch_insns_frame[OF p_def[symmetric]]) simp
  then show ?thesis
    by (cases p) (auto simp: r flush_icache_range_def pr_info_once_fields)
qed

lemma do_apply_alternatives_frame:
  assumes "do_apply_alternatives e region lin s = r"
    and "\<forall>site \<in> set region. cpus_have_cap e (cpufeature site) \<longrightarrow>
           (\<forall>k < 4 * (unat (alt_len site) div 4).
              a \<noteq> phys_addr e
                    ((if lin then lm_alias e (orig_ptr site) else orig_ptr site) + of_nat k))"
  shows "case r of Inl (b, s') \<Rightarrow> mem s' a = mem s a | Inr s' \<Rightarrow> mem s' a = mem s a"
  using assms
proof (induction region arbitrary: s)
  case Nil
  then show ?case by auto
next
  case (Cons alt region)
  from Cons.prems(2) have here: "cpus_have_cap e (cpufeature alt) \<longrightarrow>
           (\<forall>k < 4 * (unat (alt_len alt) div 4).
              a \<noteq> phys_addr e
                    ((if lin then lm_alias e (orig_ptr alt) else orig_ptr alt) + of_nat k))"
    by simp
  from Cons.prems(2) have rest: "\<forall>site \<in> set region. cpus_have_cap e (cpufeature site) \<longrightarrow>
           (\<forall>k < 4 * (unat (alt_len site) div 4).
              a \<noteq> phys_addr e
                    ((if lin then lm_alias e (orig_ptr site) else orig_ptr site) + of_nat k))"
    by simp
  show ?case
  proof (cases "apply_alt e lin alt s")
    case (Inl err)
    with Cons.prems(1) apply_alt_frame[OF Inl here] show ?thesis
      by auto
  next
    case (Inr s1)
    with Cons.prems(1) have "do_apply_alternatives e region lin s1 = r"
      by simp
    from Cons.IH[OF this rest] apply_alt_frame[OF Inr here] show ?thesis
      by (auto split: sum.splits)
  qed
qed

subsection \<open>Runs on the sample platform\<close>

lemma sample_alt_cap: "cpus_have_cap sample_env (cpufeature sample_alt)"
  by (simp add: sample_env_def sample_alt_def)

lemma skipped_alt_cap: "\<not> cpus_have_cap sample_env (cpufeature skipped_alt)"
  by (simp add: sample_env_def skipped_alt_def)

lemma mismatch_alt_cap: "cpus_have_cap sample_env (cpufeature mismatch_alt)"
  by (simp add: sample_env_def mismatch_alt_def)

lemma odd_alt_cap: "cpus_have_cap sample_env (cpufeature odd_alt)"
  by (simp add: sample_env_def odd_alt_def)

lemma sample_apply:
  "apply_alt sample_env True sample_alt sample_state = Inr (sample_state_patched\<lparr>patched := 0\<rparr>)"
  by (simp add: apply_alt_def Let_def sample_env_def sample_alt_def sample_state_def
        sample_state_patched_def pr_info_once_def flush_icache_range_def patch_insns.simps
        get_alt_insn_def address_needs_relocation_fixup_def align_down_def SZ_4K_def
        read_le32_def write_le32_def phys_addr_def sample_mem_def)

lemma sample_apply_odd:
  "apply_alt sample_env False odd_alt sample_state = Inr sample_state_odd"
  by (simp add: apply_alt_def Let_def sample_env_def odd_alt_def sample_state_def
        sample_state_odd_def pr_info_once_def flush_icache_range_def patch_insns.simps
        get_alt_insn_def address_needs_relocation_fixup_def
        read_le32_def write_le32_def phys_addr_def sample_mem_def)

subsection \<open>Signed 32-bit offsets\<close>

lemma ucast_scast_s32: "(ucast (scast (x::s32) :: u64) :: s32) = x"
  by (rule bit_word_eqI) (auto simp: bit_simps)

lemma sint_scast_s32: "sint (scast (x::s32) :: u64) = sint x"
  by (simp add: sint_up_scast is_up)

lemma sint_s32_range: "- (2 ^ 31) \<le> sint (x::s32) \<and> sint x < 2 ^ 31"
  using sint_ge[of x] sint_lt[of x] by simp

text \<open>
  The sign-extended \<open>s32\<close> offset \<open>g\<close> is the 64-bit difference \<open>d\<close> exactly when
  \<open>d\<close> fits a signed 32-bit value and \<open>g\<close> is its low 32 bits.
\<close>

lemma scast_s32_eq_iff:
  "scast (g::s32) = (d::u64) \<longleftrightarrow>
     - (2 ^ 31) \<le> sint d \<and> sint d < 2 ^ 31 \<and> g = ucast d"
proof
  assume "scast g = d"
  then have d: "d = scast g" by simp
  show "- (2 ^ 31) \<le> sint d \<and> sint d < 2 ^ 31 \<and> g = ucast d"
    unfolding d using sint_s32_range[of g] by (simp add: sint_scast_s32 ucast_scast_s32)
next
  assume "- (2 ^ 31) \<le> sint d \<and> sint d < 2 ^ 31 \<and> g = ucast d"
  then show "scast g = d"
    by (simp add: scast_ucast_s32)
qed

subsection \<open>Flushes recorded by a pass\<close>

lemma apply_alt_flushed:
  assumes run: "apply_alt e lin alt s = Inr s'"
  shows "flushed s' = flushed s @
     (if cpus_have_cap e (cpufeature alt)
      then [(orig_ptr alt, orig_ptr alt + 4 * of_nat (unat (alt_len alt) div 4))] else [])"
proof (cases "cpus_have_cap e (cpufeature alt)")
  case False
  with run show ?thesis
    by (auto simp: apply_alt_def)
next
  case True
  with run have len: "orig_len alt = alt_len alt"
    by (auto simp: apply_alt_def split: if_splits)
  define p where "p = patch_insns e alt (orig_ptr alt) (repl_ptr alt)
      (if lin then lm_alias e (orig_ptr alt) else orig_ptr alt) (unat (alt_len alt) div 4) 0
      (pr_info_once s)"
  have r: "Inr s' = (case p of Inl err \<Rightarrow> Inl err
     | Inr s2 \<Rightarrow> Inr (flush_icache_range (orig_ptr alt)
         (orig_ptr alt + 4 * of_nat (unat (alt_len alt) div 4)) s2))"
    using run True len by (simp add: apply_alt_applied p_def)
  have "case p of Inl (b, s') \<Rightarrow> s' = (pr_info_once s)\<lparr>mem := mem s'\<rparr>
                | Inr s' \<Rightarrow> s' = (pr_info_once s)\<lparr>mem := mem s'\<rparr>"
    using p_def[symmetric] by (rule patch_insns_only_mem)
  then have "case p of Inl (b, s') \<Rightarrow> True | Inr s' \<Rightarrow> flushed s' = flushed s"
    by (cases p) (auto simp: pr_info_once_fields dest: arg_cong[where f=flushed])
  with r True show ?thesis
    by (cases p) (auto simp: flush_icache_range_def)
qed

lemma do_apply_alternatives_flushed:
  "do_apply_alternatives e region lin s = Inr s' \<Longrightarrow>
   flushed s' = flushed s @
     map (\<lambda>alt. (orig_ptr alt, orig_ptr alt + 4 * of_nat (unat (alt_len alt) div 4)))
       (filter (\<lambda>alt. cpus_have_cap e (cpufeature alt)) region)"
proof (induction region arbitrary: s)
  case Nil
  then show ?case by auto
next
  case (Cons alt region)
  show ?case
  proof (cases "apply_alt e lin alt s")
    case (Inl err)
    with Cons.prems show ?thesis
      by simp
  next
    case (Inr s1)
    with Cons.prems have "do_apply_alternatives e region lin s1 = Inr s'"
      by simp
    from Cons.IH[OF this] apply_alt_flushed[OF Inr] show ?thesis
      by simp
  qed
qed

subsection \<open>The spin loop of the other cores\<close>

text \<open>
  The loop \<open>while (!READ_ONCE(patched)) cpu_relax()\<close> returns exactly when the flag
  it reads is set, and then in the state it was entered in; with the flag clear it never
  returns.
\<close>

lemma wait_for_patched_Some:
  assumes "wait_for_patched s = Some s'"
  shows "patched s \<noteq> 0 \<and> s' = s"
  by (rule wait_for_patched.raw_induct[where P = "\<lambda>s s'. patched s \<noteq> 0 \<and> s' = s", OF _ assms])
    (auto split: if_splits)

lemma wait_for_patched_eq:
  "wait_for_patched s = (if patched s = 0 then None else Some s)"
proof (cases "patched s = 0")
  case True
  then have "wait_for_patched s \<noteq> Some s'" for s'
    using wait_for_patched_Some[of s s'] by blast
  with True show ?thesis
    by (cases "wait_for_patched s") auto
next
  case False
  then show ?thesis
    by (subst wait_for_patched.simps) simp
qed

lemma other_core_waits_for_flag:
  "cpu \<noteq> 0 \<Longrightarrow>
   apply_alternatives_multi_stop e cpu s = (if patched s = 0 then None else Some (Inr (isb s)))"
  by (simp add: apply_alternatives_multi_stop_def wait_for_patched_eq)

subsection \<open>More runs on the sample platform\<close>

lemma sample_apply_in_place:
  "apply_alt sample_env False sample_alt sample_state = Inr (sample_state_patched\<lparr>patched := 0\<rparr>)"
  by (simp add: apply_alt_def Let_def sample_env_def sample_alt_def sample_state_def
        sample_state_patched_def pr_info_once_def flush_icache_range_def patch_insns.simps
        get_alt_insn_def address_needs_relocation_fixup_def align_down_def SZ_4K_def
        read_le32_def write_le32_def phys_addr_def sample_mem_def)

lemma absent_same_cap: "\<not> cpus_have_cap sample_env (cpufeature absent_same)"
  by (simp add: sample_env_def absent_same_def)

lemma sample_original_words:
  "read_le32 sample_env sample_mem 0xffff000008100400 = 0"
  "read_le32 sample_env (mem sample_state_patched) 0xffff000008100400 = 0x17FFFF00"
  "read_le32 sample_env (mem sample_state_patched) 0xffff000008100404 = 0xB0006800"
  by (simp_all add: sample_state_patched_def sample_mem_def read_le32_def write_le32_def
        phys_addr_def sample_env_def)

lemma sample_table: "alt_instructions sample_env = [skipped_alt, sample_alt]"
  by (simp add: sample_env_def)

lemma sample_pass:
  "do_apply_alternatives sample_env [skipped_alt, sample_alt] True sample_state
     = Inr (sample_state_patched\<lparr>patched := 0\<rparr>)"
proof -
  have "apply_alt sample_env True skipped_alt sample_state = Inr sample_state"
    using skipped_alt_cap by (simp add: apply_alt_def)
  then show ?thesis
    by (simp add: sample_apply)
qed

section \<open>The claims\<close>

subsection \<open>Relative branches that leave the block\<close>




subsection \<open>The needs-relocation decision\<close>

text \<open>
  Claim C2, as amended. With the span of the replacement block taken as the closed
  interval \<open>[replptr, replptr + alt_len]\<close>, end address included: an address in kernel
  text or core kernel data and outside the span requires relocation; an address in neither
  region and within the span requires none; an address in neither region and outside the
  span is fatal. Nothing is stated here about an address of the span that is also kernel
  text or core kernel data.
\<close>

theorem address_needs_relocation_fixup_decision:
  "let in_span = (repl_ptr alt \<le> addr \<and> addr \<le> repl_ptr alt + ucast (alt_len alt));
       known = (kernel_text_address e addr \<or> core_kernel_data e addr)
   in (known \<and> \<not> in_span \<longrightarrow> address_needs_relocation_fixup e alt addr = Inr True)
    \<and> (\<not> known \<and> in_span \<longrightarrow> address_needs_relocation_fixup e alt addr = Inr False)
    \<and> (\<not> known \<and> \<not> in_span \<longrightarrow>
          address_needs_relocation_fixup e alt addr = Inl BUG_cannot_decide)"
  by (auto simp add: address_needs_relocation_fixup_def Let_def)

text \<open>
  The decision on the sample platform: kernel text, core kernel data, the inside of the
  block, its end address, and the first address after it.
\<close>

theorem address_needs_relocation_fixup_decision_witness:
  "address_needs_relocation_fixup sample_env sample_alt 0xffff000008100000 = Inr True
   \<and> address_needs_relocation_fixup sample_env sample_alt 0xffff000008e01000 = Inr True
   \<and> address_needs_relocation_fixup sample_env sample_alt 0xffff000008c00104 = Inr False
   \<and> address_needs_relocation_fixup sample_env sample_alt 0xffff000008c00108 = Inr False
   \<and> address_needs_relocation_fixup sample_env sample_alt 0xffff000008c00109
        = Inl BUG_cannot_decide"
  using address_needs_relocation_fixup_decision
      [where e = sample_env and alt = sample_alt and addr = "0xffff000008100000"]
    address_needs_relocation_fixup_decision
      [where e = sample_env and alt = sample_alt and addr = "0xffff000008e01000"]
    address_needs_relocation_fixup_decision
      [where e = sample_env and alt = sample_alt and addr = "0xffff000008c00104"]
    address_needs_relocation_fixup_decision
      [where e = sample_env and alt = sample_alt and addr = "0xffff000008c00108"]
    address_needs_relocation_fixup_decision
      [where e = sample_env and alt = sample_alt and addr = "0xffff000008c00109"]
  by (simp add: Let_def sample_env_simps sample_alt_def)

text \<open>
  The claim as first stated fails at the end address of the block: it is in neither
  region and not within \<open>[replptr, replptr + alt_len)\<close>, and the decision is
  ``no relocation'', not a fatal stop.
\<close>

theorem block_end_not_fatal_counterexample:
  "\<not> kernel_text_address sample_env 0xffff000008c00108
   \<and> \<not> core_kernel_data sample_env 0xffff000008c00108
   \<and> repl_ptr sample_alt + ucast (alt_len sample_alt) = 0xffff000008c00108
   \<and> \<not> 0xffff000008c00108 < repl_ptr sample_alt + ucast (alt_len sample_alt)
   \<and> address_needs_relocation_fixup sample_env sample_alt 0xffff000008c00108 = Inr False
   \<and> address_needs_relocation_fixup sample_env sample_alt 0xffff000008c00108
        \<noteq> Inl BUG_cannot_decide"
  by (simp add: address_needs_relocation_fixup_def sample_env_simps sample_alt_def)

subsection \<open>Branches inside the block\<close>

text \<open>
  Claim C3, as amended. A relative branch of the replacement block whose target lies in
  the closed interval \<open>[replptr, replptr + alt_len]\<close>, and in neither kernel text nor core
  kernel data, is returned by \<open>get_alt_insn\<close> with the encoding it has in the replacement
  block. Among the addresses outside kernel text and core kernel data, those of the closed
  interval, and only those, are treated as internal.
\<close>

theorem get_alt_insn_branch_internal:
  assumes "aarch64_insn_is_branch_imm e (read_le32 e m altinsnptr)"
    and "target = altinsnptr + scast (aarch64_get_branch_offset e (read_le32 e m altinsnptr))"
    and "\<not> kernel_text_address e target" and "\<not> core_kernel_data e target"
    and "repl_ptr alt \<le> target" and "target \<le> repl_ptr alt + ucast (alt_len alt)"
  shows "get_alt_insn e alt insnptr altinsnptr m = Inr (read_le32 e m altinsnptr)
       \<and> (\<forall>addr. \<not> kernel_text_address e addr \<and> \<not> core_kernel_data e addr \<longrightarrow>
            (address_needs_relocation_fixup e alt addr = Inr False \<longleftrightarrow>
               repl_ptr alt \<le> addr \<and> addr \<le> repl_ptr alt + ucast (alt_len alt)))"
  using assms by (auto simp add: get_alt_insn_def address_needs_relocation_fixup_def Let_def)

text \<open>
  The branch at the start of the replacement block of \<open>skipped_alt\<close> targets the end
  address of that block and is copied as it is.
\<close>

theorem get_alt_insn_branch_internal_witness:
  "get_alt_insn sample_env skipped_alt 0xffff000008100800 0xffff000008c00200 sample_mem
     = Inr 0x14000002
   \<and> address_needs_relocation_fixup sample_env skipped_alt 0xffff000008c00208 = Inr False"
proof -
  have b: "aarch64_insn_is_branch_imm sample_env (read_le32 sample_env sample_mem 0xffff000008c00200)"
    by (simp add: sample_words sample_env_simps)
  have t: "(0xffff000008c00208 :: u64) = 0xffff000008c00200
             + scast (aarch64_get_branch_offset sample_env
                        (read_le32 sample_env sample_mem 0xffff000008c00200))"
    by (simp add: sample_words sample_env_simps)
  have k: "\<not> kernel_text_address sample_env 0xffff000008c00208"
    by (simp add: sample_env_simps)
  have d: "\<not> core_kernel_data sample_env 0xffff000008c00208"
    by (simp add: sample_env_simps)
  have lo: "repl_ptr skipped_alt \<le> 0xffff000008c00208"
    by (simp add: skipped_alt_def)
  have hi: "0xffff000008c00208 \<le> repl_ptr skipped_alt + ucast (alt_len skipped_alt)"
    by (simp add: skipped_alt_def)
  from get_alt_insn_branch_internal [OF b t k d lo hi, where insnptr = "0xffff000008100800"]
    k d lo hi
  show ?thesis
    by (simp add: sample_words)
qed

text \<open>
  The claim as first stated fails: the end address \<open>replptr + alt_len\<close> is not within
  the half-open interval, yet it is treated as internal and the branch to it is copied
  unchanged.
\<close>

theorem block_end_is_internal_counterexample:
  "read_le32 sample_env sample_mem 0xffff000008c00200 = 0x14000002
   \<and> aarch64_insn_is_branch_imm sample_env 0x14000002
   \<and> 0xffff000008c00200 + scast (aarch64_get_branch_offset sample_env 0x14000002)
        = (0xffff000008c00208 :: u64)
   \<and> \<not> (0xffff000008c00208 < repl_ptr skipped_alt + ucast (alt_len skipped_alt))
   \<and> address_needs_relocation_fixup sample_env skipped_alt 0xffff000008c00208 = Inr False
   \<and> get_alt_insn sample_env skipped_alt 0xffff000008100800 0xffff000008c00200 sample_mem
        = Inr 0x14000002"
  by (simp add: sample_words get_alt_insn_def address_needs_relocation_fixup_def
        sample_env_simps skipped_alt_def)

subsection \<open>Page-relative address loads\<close>

text \<open>
  Claim C4, as amended. For an \<open>adrp\<close> of the replacement block the target is
  \<open>align_down(altinsnptr, 4096) + offset\<close>, where \<open>align_down\<close> by 4096 subtracts the
  remainder modulo 4096. When relocation is needed the instruction is re-encoded with
  \<open>new_offset\<close>, the difference \<open>target - align_down(insnptr, 4096)\<close> converted to
  \<open>s32\<close>; \<open>new_offset\<close> is that difference exactly when the difference fits a signed
  32-bit value. When relocation is not needed the encoding is returned unchanged.
\<close>

theorem get_alt_insn_adrp:
  assumes "\<not> aarch64_insn_is_branch_imm e (read_le32 e m altinsnptr)"
    and "aarch64_insn_is_adrp e (read_le32 e m altinsnptr)"
  shows "let insn = read_le32 e m altinsnptr;
             target = align_down altinsnptr SZ_4K + scast (aarch64_insn_adrp_get_offset e insn);
             difference = target - align_down insnptr SZ_4K;
             new_offset = (ucast difference :: s32)
         in (address_needs_relocation_fixup e alt target = Inr True \<longrightarrow>
               get_alt_insn e alt insnptr altinsnptr m =
                 Inr (aarch64_insn_adrp_set_offset e insn new_offset)
               \<and> (scast new_offset = difference
                    \<longleftrightarrow> - (2 ^ 31) \<le> sint difference \<and> sint difference < 2 ^ 31))
          \<and> (address_needs_relocation_fixup e alt target = Inr False \<longrightarrow>
               get_alt_insn e alt insnptr altinsnptr m = Inr insn)
          \<and> unat (align_down altinsnptr SZ_4K) = unat altinsnptr - unat altinsnptr mod 4096
          \<and> unat (align_down insnptr SZ_4K) = unat insnptr - unat insnptr mod 4096"
  using assms scast_s32_eq_iff
  by (simp add: get_alt_insn_def Let_def unat_align_down_4K)

text \<open>
  The \<open>adrp\<close> in the second slot of the replacement block of \<open>sample_alt\<close>: here
  the difference fits and is the offset encoded.
\<close>

theorem get_alt_insn_adrp_witness:
  "align_down 0xffff000008c00104 SZ_4K = 0xffff000008c00000
   \<and> align_down 0xffff000008100404 SZ_4K = 0xffff000008100000
   \<and> aarch64_insn_adrp_get_offset sample_env 0xB0001000 = 0x201000
   \<and> address_needs_relocation_fixup sample_env sample_alt 0xffff000008e01000 = Inr True
   \<and> sint (0xffff000008e01000 - 0xffff000008100000 :: u64) = 0xD01000
   \<and> get_alt_insn sample_env sample_alt 0xffff000008100404 0xffff000008c00104 sample_mem
        = Inr (aarch64_insn_adrp_set_offset sample_env 0xB0001000 0xD01000)
   \<and> scast (0xD01000 :: s32) = (0xffff000008e01000 - 0xffff000008100000 :: u64)
   \<and> aarch64_insn_adrp_set_offset sample_env 0xB0001000 0xD01000 = 0xB0006800
   \<and> aarch64_insn_adrp_get_offset sample_env 0xB0006800 = 0xD01000"
proof -
  have nb: "\<not> aarch64_insn_is_branch_imm sample_env
               (read_le32 sample_env sample_mem 0xffff000008c00104)"
    by (simp add: sample_words sample_env_simps)
  have p: "aarch64_insn_is_adrp sample_env (read_le32 sample_env sample_mem 0xffff000008c00104)"
    by (simp add: sample_words sample_env_simps)
  have a: "align_down 0xffff000008c00104 SZ_4K = 0xffff000008c00000"
    "align_down 0xffff000008100404 SZ_4K = 0xffff000008100000"
    by (simp_all add: align_down_def SZ_4K_def)
  have f: "address_needs_relocation_fixup sample_env sample_alt 0xffff000008e01000 = Inr True"
    by (simp add: address_needs_relocation_fixup_def sample_env_simps)
  have o: "aarch64_insn_adrp_get_offset sample_env 0xB0001000 = 0x201000"
    "aarch64_insn_adrp_get_offset sample_env 0xB0006800 = 0xD01000"
    "aarch64_insn_adrp_set_offset sample_env 0xB0001000 0xD01000 = 0xB0006800"
    by (simp_all add: sample_env_simps)
  have d: "sint (0xffff000008e01000 - 0xffff000008100000 :: u64) = 0xD01000"
    by simp
  note r = get_alt_insn_adrp [OF nb p, where alt = sample_alt and insnptr = "0xffff000008100404"]
  from r have "get_alt_insn sample_env sample_alt 0xffff000008100404 0xffff000008c00104 sample_mem
        = Inr (aarch64_insn_adrp_set_offset sample_env 0xB0001000 0xD01000)
     \<and> scast (0xD01000 :: s32) = (0xffff000008e01000 - 0xffff000008100000 :: u64)"
    by (simp add: Let_def sample_words a o(1) f)
  with a o f d show ?thesis
    by simp
qed

text \<open>
  The claim as first stated fails at a patch site \<open>2^32\<close> bytes above: the difference
  is \<open>0xFFFFFFFF00D01000\<close> and the offset encoded is \<open>0xD01000\<close>.
\<close>

theorem adrp_offset_truncated_counterexample:
  "read_le32 sample_env sample_mem 0xffff000008c00104 = 0xB0001000
   \<and> \<not> aarch64_insn_is_branch_imm sample_env 0xB0001000
   \<and> aarch64_insn_is_adrp sample_env 0xB0001000
   \<and> align_down 0xffff000008c00104 SZ_4K
        + scast (aarch64_insn_adrp_get_offset sample_env 0xB0001000) = 0xffff000008e01000
   \<and> address_needs_relocation_fixup sample_env far_alt 0xffff000008e01000 = Inr True
   \<and> 0xffff000008e01000 - align_down 0xffff000108100004 SZ_4K = 0xFFFFFFFF00D01000
   \<and> get_alt_insn sample_env far_alt 0xffff000108100004 0xffff000008c00104 sample_mem
        = Inr (aarch64_insn_adrp_set_offset sample_env 0xB0001000 0xD01000)
   \<and> scast (0xD01000 :: s32) \<noteq> (0xFFFFFFFF00D01000 :: u64)"
  by (simp add: sample_words get_alt_insn_def address_needs_relocation_fixup_def
        sample_env_simps far_alt_def align_down_def SZ_4K_def)

subsection \<open>Unrelocatable instructions\<close>

text \<open>
  Claim C7, as amended. An \<open>adr\<close> whose target lies outside the span
  \<open>[replptr, replptr + alt_len]\<close>, which includes the address just after the last byte
  of the replacement block, is fatal: with
  \<open>BUG()\<close> of \<open>get_alt_insn\<close> when the target is kernel text or core kernel data, with
  \<open>BUG()\<close> of the decision function otherwise. An \<open>adr\<close> into kernel text or core
  kernel data is fatal wherever the block lies. An instruction that uses a literal, and is
  none of the kinds tested before, is fatal unconditionally. None of them is passed through.
\<close>

theorem get_alt_insn_unrelocatable_fatal:
  "let insn = read_le32 e m altinsnptr;
       target = altinsnptr + scast (aarch64_insn_adr_get_offset e insn)
   in (\<not> aarch64_insn_is_branch_imm e insn \<and> \<not> aarch64_insn_is_adrp e insn
        \<and> aarch64_insn_is_adr e insn
        \<and> \<not> (repl_ptr alt \<le> target \<and> target \<le> repl_ptr alt + ucast (alt_len alt))
       \<longrightarrow> get_alt_insn e alt insnptr altinsnptr m =
             Inl (if kernel_text_address e target \<or> core_kernel_data e target
                  then BUG_adr_outside else BUG_cannot_decide))
    \<and> (\<not> aarch64_insn_is_branch_imm e insn \<and> \<not> aarch64_insn_is_adrp e insn
        \<and> aarch64_insn_is_adr e insn
        \<and> (kernel_text_address e target \<or> core_kernel_data e target)
       \<longrightarrow> get_alt_insn e alt insnptr altinsnptr m = Inl BUG_adr_outside)
    \<and> (\<not> aarch64_insn_is_branch_imm e insn \<and> \<not> aarch64_insn_is_adrp e insn
        \<and> \<not> aarch64_insn_is_adr e insn \<and> aarch64_insn_uses_literal e insn
       \<longrightarrow> get_alt_insn e alt insnptr altinsnptr m = Inl BUG_uses_literal)"
  by (auto simp add: get_alt_insn_def address_needs_relocation_fixup_def Let_def)

text \<open>The \<open>adr\<close> and the literal load of the sample memory both stop the machine.\<close>

theorem get_alt_insn_unrelocatable_fatal_witness:
  "aarch64_insn_is_adr sample_env (read_le32 sample_env sample_mem 0xffff000008c00300)
   \<and> \<not> 0xffff000008c00400 \<le> repl_ptr unrelocatable_alt + ucast (alt_len unrelocatable_alt)
   \<and> get_alt_insn sample_env unrelocatable_alt 0xffff000008100c00 0xffff000008c00300 sample_mem
        = Inl BUG_cannot_decide
   \<and> aarch64_insn_uses_literal sample_env (read_le32 sample_env sample_mem 0xffff000008c00304)
   \<and> get_alt_insn sample_env unrelocatable_alt 0xffff000008100c04 0xffff000008c00304 sample_mem
        = Inl BUG_uses_literal"
  using get_alt_insn_unrelocatable_fatal
      [where e = sample_env and m = sample_mem and alt = unrelocatable_alt
         and altinsnptr = "0xffff000008c00300" and insnptr = "0xffff000008100c00"]
    get_alt_insn_unrelocatable_fatal
      [where e = sample_env and m = sample_mem and alt = unrelocatable_alt
         and altinsnptr = "0xffff000008c00304" and insnptr = "0xffff000008100c04"]
  by (simp add: Let_def sample_words sample_env_simps unrelocatable_alt_def)

text \<open>
  Against the claim as stated: the address just after the last byte of the block is outside
  the block, and the \<open>adr\<close> of the sample memory that targets it is passed through
  unchanged.
\<close>

theorem adr_to_block_end_counterexample:
  "read_le32 sample_env sample_mem 0xffff000008c00204 = 0x10000020
   \<and> \<not> aarch64_insn_is_branch_imm sample_env 0x10000020
   \<and> \<not> aarch64_insn_is_adrp sample_env 0x10000020
   \<and> aarch64_insn_is_adr sample_env 0x10000020
   \<and> 0xffff000008c00204 + scast (aarch64_insn_adr_get_offset sample_env 0x10000020)
        = (0xffff000008c00208 :: u64)
   \<and> \<not> 0xffff000008c00208 < repl_ptr skipped_alt + ucast (alt_len skipped_alt)
   \<and> get_alt_insn sample_env skipped_alt 0xffff000008100804 0xffff000008c00204 sample_mem
        = Inr 0x10000020"
  by (simp add: sample_words get_alt_insn_def address_needs_relocation_fixup_def
        sample_env_simps skipped_alt_def)

subsection \<open>Sites whose capability is absent\<close>

text \<open>
  Claim C5, as amended. For a descriptor whose capability is absent the iteration of the
  outer loop returns the state it was given: on account of that site nothing is written, no
  flush is recorded and no length check is made. The pass over a region that contains the
  descriptor is the pass over the region without it. After a pass that returns, every
  physical byte that is not among the \<open>4 * (alt_len div 4)\<close> destination bytes of a
  descriptor that is applied is unchanged; in particular so is each byte of the original
  range of the absent site that is not, physically, such a destination byte.
\<close>

theorem absent_capability_site_untouched:
  assumes "\<not> cpus_have_cap e (cpufeature alt)"
  shows "apply_alt e lin alt s = Inr s
       \<and> do_apply_alternatives e (pre @ alt # post) lin s
           = do_apply_alternatives e (pre @ post) lin s
       \<and> (\<forall>s' a. do_apply_alternatives e (pre @ alt # post) lin s = Inr s'
            \<and> (\<forall>site \<in> set (pre @ post). cpus_have_cap e (cpufeature site) \<longrightarrow>
                 (\<forall>k < 4 * (unat (alt_len site) div 4).
                    a \<noteq> phys_addr e
                          ((if lin then lm_alias e (orig_ptr site) else orig_ptr site) + of_nat k)))
            \<longrightarrow> mem s' a = mem s a)
       \<and> (\<forall>s' j. do_apply_alternatives e (pre @ alt # post) lin s = Inr s'
            \<and> j < unat (orig_len alt)
            \<and> (\<forall>site \<in> set (pre @ post). cpus_have_cap e (cpufeature site) \<longrightarrow>
                 (\<forall>k < 4 * (unat (alt_len site) div 4).
                    phys_addr e (orig_ptr alt + of_nat j)
                      \<noteq> phys_addr e
                          ((if lin then lm_alias e (orig_ptr site) else orig_ptr site) + of_nat k)))
            \<longrightarrow> mem s' (phys_addr e (orig_ptr alt + of_nat j))
                  = mem s (phys_addr e (orig_ptr alt + of_nat j)))"
proof -
  have one: "apply_alt e lin alt s = Inr s" for s
    using assms by (simp add: apply_alt_def)
  have skip: "do_apply_alternatives e (pre @ alt # post) lin s
               = do_apply_alternatives e (pre @ post) lin s"
    by (simp add: do_apply_alternatives_append one split: sum.splits)
  have frame: "mem s' a = mem s a"
    if "do_apply_alternatives e (pre @ alt # post) lin s = Inr s'"
      and "\<forall>site \<in> set (pre @ post). cpus_have_cap e (cpufeature site) \<longrightarrow>
                 (\<forall>k < 4 * (unat (alt_len site) div 4).
                    a \<noteq> phys_addr e
                          ((if lin then lm_alias e (orig_ptr site) else orig_ptr site) + of_nat k))"
    for s' a
    using do_apply_alternatives_frame[OF that(1)[unfolded skip] that(2)] by simp
  from one skip frame show ?thesis
    by blast
qed

text \<open>
  On the sample platform \<open>skipped_alt\<close> has an absent capability and unequal lengths;
  the pass over both descriptors goes through, records the one flush of \<open>sample_alt\<close>
  and leaves the first byte of the original range of \<open>skipped_alt\<close> as it was.
\<close>

theorem absent_capability_site_untouched_witness:
  "\<not> cpus_have_cap sample_env (cpufeature skipped_alt)
   \<and> alt_len skipped_alt \<noteq> orig_len skipped_alt
   \<and> apply_alt sample_env True skipped_alt sample_state = Inr sample_state
   \<and> do_apply_alternatives sample_env [skipped_alt, sample_alt] True sample_state
        = Inr (sample_state_patched\<lparr>patched := 0\<rparr>)
   \<and> flushed (sample_state_patched\<lparr>patched := 0\<rparr>) = [(0xffff000008100400, 0xffff000008100408)]
   \<and> mem (sample_state_patched\<lparr>patched := 0\<rparr>) (phys_addr sample_env (orig_ptr skipped_alt))
        = mem sample_state (phys_addr sample_env (orig_ptr skipped_alt))"
proof -
  note t = absent_capability_site_untouched
    [where e = sample_env and alt = skipped_alt and lin = True and s = sample_state
       and pre = "[]" and post = "[sample_alt]", OF skipped_alt_cap]
  have run: "do_apply_alternatives sample_env [skipped_alt, sample_alt] True sample_state
        = Inr (sample_state_patched\<lparr>patched := 0\<rparr>)"
    using t by (simp add: sample_apply)
  have apart: "phys_addr sample_env (orig_ptr skipped_alt + of_nat 0)
                 \<noteq> phys_addr sample_env (lm_alias sample_env (orig_ptr sample_alt) + of_nat k)"
    if "k < 8" for k
  proof -
    have "orig_ptr skipped_alt + of_nat 0 = orig_ptr sample_alt + of_nat 1024"
      by (simp add: skipped_alt_def sample_alt_def)
    then have "phys_addr sample_env (orig_ptr skipped_alt + of_nat 0)
               = phys_addr sample_env (lm_alias sample_env (orig_ptr sample_alt) + of_nat 1024)"
      by (simp only: sample_lm_alias_same_bytes)
    moreover from that have "(1024::nat) < 4096" "k < 4096" "1024 \<noteq> k"
      by simp_all
    then have "phys_addr sample_env (lm_alias sample_env (orig_ptr sample_alt) + of_nat 1024)
               \<noteq> phys_addr sample_env (lm_alias sample_env (orig_ptr sample_alt) + of_nat k)"
      by (rule phys_addr_neq)
    ultimately show ?thesis
      by simp
  qed
  have len: "unat (alt_len sample_alt) = 8" "0 < unat (orig_len skipped_alt)"
    by (simp_all add: sample_alt_def skipped_alt_def)
  from t run apart len
  have "mem (sample_state_patched\<lparr>patched := 0\<rparr>)
            (phys_addr sample_env (orig_ptr skipped_alt + of_nat 0))
        = mem sample_state (phys_addr sample_env (orig_ptr skipped_alt + of_nat 0))"
    by (auto simp: sample_alt_cap)
  then have "mem (sample_state_patched\<lparr>patched := 0\<rparr>) (phys_addr sample_env (orig_ptr skipped_alt))
        = mem sample_state (phys_addr sample_env (orig_ptr skipped_alt))"
    by simp
  moreover have "alt_len skipped_alt \<noteq> orig_len skipped_alt"
    by (simp add: skipped_alt_def)
  moreover have "flushed (sample_state_patched\<lparr>patched := 0\<rparr>)
                 = [(0xffff000008100400, 0xffff000008100408)]"
    by (simp add: sample_state_patched_def)
  ultimately show ?thesis
    using t run skipped_alt_cap by simp
qed

text \<open>
  The claim as first stated fails when a descriptor that is applied has the same original
  range as one whose capability is absent: the first word of that range is \<open>0\<close> before
  the pass and \<open>0x17FFFF00\<close> after it, patched in place or through the linear alias.
\<close>

theorem absent_site_bytes_rewritten_counterexample:
  "\<not> cpus_have_cap sample_env (cpufeature absent_same)
   \<and> orig_ptr absent_same = 0xffff000008100400
   \<and> unat (orig_len absent_same) = 8
   \<and> read_le32 sample_env (mem sample_state) 0xffff000008100400 = 0
   \<and> do_apply_alternatives sample_env [absent_same, sample_alt] False sample_state
        = Inr (sample_state_patched\<lparr>patched := 0\<rparr>)
   \<and> do_apply_alternatives sample_env [absent_same, sample_alt] True sample_state
        = Inr (sample_state_patched\<lparr>patched := 0\<rparr>)
   \<and> read_le32 sample_env (mem (sample_state_patched\<lparr>patched := 0\<rparr>)) 0xffff000008100400
        = 0x17FFFF00"
proof -
  have skip: "apply_alt sample_env lin absent_same sample_state = Inr sample_state" for lin
    using absent_same_cap by (simp add: apply_alt_def)
  have "do_apply_alternatives sample_env [absent_same, sample_alt] False sample_state
        = Inr (sample_state_patched\<lparr>patched := 0\<rparr>)"
    by (simp add: skip sample_apply_in_place)
  moreover have "do_apply_alternatives sample_env [absent_same, sample_alt] True sample_state
        = Inr (sample_state_patched\<lparr>patched := 0\<rparr>)"
    by (simp add: skip sample_apply)
  moreover have "orig_ptr absent_same = 0xffff000008100400" "unat (orig_len absent_same) = 8"
    by (simp_all add: absent_same_def)
  moreover have "read_le32 sample_env (mem sample_state) 0xffff000008100400 = 0"
    by (simp add: sample_state_def sample_original_words)
  moreover have "read_le32 sample_env (mem (sample_state_patched\<lparr>patched := 0\<rparr>))
                   0xffff000008100400 = 0x17FFFF00"
    by (simp add: sample_original_words)
  ultimately show ?thesis
    using absent_same_cap by simp
qed

subsection \<open>The length check\<close>

text \<open>
  Claim C6. For a descriptor whose capability is present and whose \<open>alt_len\<close> differs
  from \<open>orig_len\<close>, the machine stops with \<open>BUG_ON(alt->alt_len != alt->orig_len)\<close>
  in the state in which the iteration began: nothing of that site has been written, flushed
  or printed. This holds wherever the descriptor stands in the region. Equivalently, when
  the pass returns, every descriptor of the region whose capability is present has equal
  lengths.
\<close>

theorem length_mismatch_aborts_before_writing:
  "(cpus_have_cap e (cpufeature alt) \<and> alt_len alt \<noteq> orig_len alt \<longrightarrow>
      apply_alt e lin alt s = Inl (BUG_ON_len_mismatch, s))
   \<and> (cpus_have_cap e (cpufeature alt) \<and> alt_len alt \<noteq> orig_len alt
       \<and> do_apply_alternatives e pre lin s = Inr s1 \<longrightarrow>
      do_apply_alternatives e (pre @ alt # post) lin s = Inl (BUG_ON_len_mismatch, s1))
   \<and> (do_apply_alternatives e region lin s = Inr s' \<longrightarrow>
      (\<forall>site \<in> set region. cpus_have_cap e (cpufeature site) \<longrightarrow> alt_len site = orig_len site))"
proof -
  have one: "apply_alt e lin alt s = Inl (BUG_ON_len_mismatch, s)"
    if "cpus_have_cap e (cpufeature alt)" "alt_len alt \<noteq> orig_len alt" for s
    using that by (simp add: apply_alt_def)
  have two: "do_apply_alternatives e (pre @ alt # post) lin s = Inl (BUG_ON_len_mismatch, s1)"
    if "cpus_have_cap e (cpufeature alt)" "alt_len alt \<noteq> orig_len alt"
       "do_apply_alternatives e pre lin s = Inr s1"
    using that by (simp add: do_apply_alternatives_append one)
  have three: "do_apply_alternatives e region lin s = Inr s' \<Longrightarrow>
      \<forall>site \<in> set region. cpus_have_cap e (cpufeature site) \<longrightarrow> alt_len site = orig_len site"
  proof (induction region arbitrary: s)
    case Nil
    then show ?case by simp
  next
    case (Cons a region)
    then show ?case
      by (auto simp: apply_alt_def split: sum.splits if_splits)
  qed
  from one two three show ?thesis
    by blast
qed

text \<open>
  \<open>mismatch_alt\<close> has capability 1 and lengths 8 and 4: alone it stops the pass in the
  initial state; after \<open>sample_alt\<close> it stops the pass in the state that
  \<open>sample_alt\<close> left.
\<close>

theorem length_mismatch_aborts_before_writing_witness:
  "cpus_have_cap sample_env (cpufeature mismatch_alt)
   \<and> alt_len mismatch_alt \<noteq> orig_len mismatch_alt
   \<and> apply_alt sample_env False mismatch_alt sample_state
        = Inl (BUG_ON_len_mismatch, sample_state)
   \<and> do_apply_alternatives sample_env [sample_alt] True sample_state
        = Inr (sample_state_patched\<lparr>patched := 0\<rparr>)
   \<and> do_apply_alternatives sample_env [sample_alt, mismatch_alt, skipped_alt] True sample_state
        = Inl (BUG_ON_len_mismatch, sample_state_patched\<lparr>patched := 0\<rparr>)
   \<and> alt_len sample_alt = orig_len sample_alt"
proof -
  have c: "cpus_have_cap sample_env (cpufeature mismatch_alt)"
    by (rule mismatch_alt_cap)
  have l: "alt_len mismatch_alt \<noteq> orig_len mismatch_alt"
    by (simp add: mismatch_alt_def)
  have p: "do_apply_alternatives sample_env [sample_alt] True sample_state
           = Inr (sample_state_patched\<lparr>patched := 0\<rparr>)"
    by (simp add: sample_apply)
  from length_mismatch_aborts_before_writing
    [where e = sample_env and alt = mismatch_alt and lin = False and s = sample_state]
    c l
  have a: "apply_alt sample_env False mismatch_alt sample_state
           = Inl (BUG_ON_len_mismatch, sample_state)"
    by blast
  from length_mismatch_aborts_before_writing
    [where e = sample_env and alt = mismatch_alt and lin = True and s = sample_state
       and pre = "[sample_alt]" and post = "[skipped_alt]"
       and ?s1.0 = "sample_state_patched\<lparr>patched := 0\<rparr>"]
    c l p
  have b: "do_apply_alternatives sample_env [sample_alt, mismatch_alt, skipped_alt] True sample_state
        = Inl (BUG_ON_len_mismatch, sample_state_patched\<lparr>patched := 0\<rparr>)"
    by simp
  from length_mismatch_aborts_before_writing
    [where e = sample_env and lin = True and s = sample_state and region = "[sample_alt]"
       and s' = "sample_state_patched\<lparr>patched := 0\<rparr>"] p sample_alt_cap
  have d: "alt_len sample_alt = orig_len sample_alt"
    by simp
  from c l a p b d show ?thesis
    by blast
qed

subsection \<open>The designated core and the flag\<close>

text \<open>
  Claim C8. On the designated core (\<open>smp_processor_id() = 0\<close>) the callback always
  returns or stops. With the flag already set it stops with \<open>BUG_ON(patched)\<close> and
  changes nothing. When it returns, the flag was clear before, stayed clear during the
  whole pass over \<open>__alt_instructions\<close>, and is set to 1 in the state that the completed
  pass left (all sites rewritten and flushed); running the callback again on the designated
  core then stops with \<open>BUG_ON(patched)\<close>. When the pass itself stops, the flag is still
  clear.
\<close>

theorem multi_stop_second_pass_aborts:
  "(\<exists>r. apply_alternatives_multi_stop e 0 s = Some r)
   \<and> (patched s \<noteq> 0 \<longrightarrow>
        apply_alternatives_multi_stop e 0 s = Some (Inl (BUG_ON_patched, s)))
   \<and> (apply_alternatives_multi_stop e 0 s = Some (Inr s') \<longrightarrow>
        patched s = 0
        \<and> (\<exists>s1. do_apply_alternatives e (alt_instructions e) True s = Inr s1
                \<and> patched s1 = 0 \<and> s' = s1\<lparr>patched := 1\<rparr>)
        \<and> patched s' = 1
        \<and> apply_alternatives_multi_stop e 0 s' = Some (Inl (BUG_ON_patched, s')))
   \<and> (patched s = 0 \<and> apply_alternatives_multi_stop e 0 s = Some (Inl (b, s1)) \<longrightarrow>
        do_apply_alternatives e (alt_instructions e) True s = Inl (b, s1) \<and> patched s1 = 0)"
proof -
  have total: "\<exists>r. apply_alternatives_multi_stop e 0 s = Some r"
    by (simp add: apply_alternatives_multi_stop_def split: sum.splits)
  have again: "apply_alternatives_multi_stop e 0 s = Some (Inl (BUG_ON_patched, s))"
    if "patched s \<noteq> 0" for s
    using that by (simp add: apply_alternatives_multi_stop_def)
  have finished: "patched s = 0
        \<and> (\<exists>s1. do_apply_alternatives e (alt_instructions e) True s = Inr s1
                \<and> patched s1 = 0 \<and> s' = s1\<lparr>patched := 1\<rparr>)
        \<and> patched s' = 1
        \<and> apply_alternatives_multi_stop e 0 s' = Some (Inl (BUG_ON_patched, s'))"
    if run: "apply_alternatives_multi_stop e 0 s = Some (Inr s')"
  proof -
    from run have clear: "patched s = 0"
      by (auto simp: apply_alternatives_multi_stop_def split: if_splits)
    with run obtain s1 where
      pass: "do_apply_alternatives e (alt_instructions e) True s = Inr s1"
      and s': "s' = s1\<lparr>patched := 1\<rparr>"
      by (auto simp: apply_alternatives_multi_stop_def split: sum.splits)
    from do_apply_alternatives_patched[OF pass] clear have "patched s1 = 0"
      by simp
    moreover from s' have flag: "patched s' = 1"
      by simp
    moreover from flag have "apply_alternatives_multi_stop e 0 s' = Some (Inl (BUG_ON_patched, s'))"
      by (intro again) simp
    ultimately show ?thesis
      using clear pass s' by blast
  qed
  have stopped: "do_apply_alternatives e (alt_instructions e) True s = Inl (b, s1) \<and> patched s1 = 0"
    if clear: "patched s = 0" and run: "apply_alternatives_multi_stop e 0 s = Some (Inl (b, s1))"
  proof -
    from clear run have pass: "do_apply_alternatives e (alt_instructions e) True s = Inl (b, s1)"
      by (auto simp: apply_alternatives_multi_stop_def split: sum.splits)
    from do_apply_alternatives_patched[OF pass] clear show ?thesis
      using pass by simp
  qed
  from total again finished stopped show ?thesis
    by blast
qed

text \<open>
  The sample platform: the first pass patches \<open>sample_alt\<close> through the linear alias and
  sets the flag; the second pass stops.
\<close>

theorem multi_stop_second_pass_aborts_witness:
  "patched sample_state = 0
   \<and> apply_alternatives_multi_stop sample_env 0 sample_state = Some (Inr sample_state_patched)
   \<and> patched sample_state_patched = 1
   \<and> apply_alternatives_multi_stop sample_env 0 sample_state_patched
        = Some (Inl (BUG_ON_patched, sample_state_patched))"
proof -
  have tab: "alt_instructions sample_env = [skipped_alt, sample_alt]"
    by (simp add: sample_env_simps)
  have skip: "apply_alt sample_env True skipped_alt sample_state = Inr sample_state"
    by (simp add: apply_alt_def skipped_alt_cap)
  have clear: "patched sample_state = 0"
    by (simp add: sample_state_def)
  have same: "sample_state_patched\<lparr>patched := 1\<rparr> = sample_state_patched"
    by (simp add: sample_state_patched_def)
  have first: "apply_alternatives_multi_stop sample_env 0 sample_state
               = Some (Inr sample_state_patched)"
    by (simp add: apply_alternatives_multi_stop_def clear tab skip sample_apply same)
  from multi_stop_second_pass_aborts
    [where e = sample_env and s = sample_state and s' = sample_state_patched] first clear
  show ?thesis
    by blast
qed

subsection \<open>The other cores\<close>

text \<open>
  Claim C9. Let the flag be clear when the cores enter the callback, and take a core other
  than the designated one. In every state that the pass of the designated core goes
  through, after any number of descriptors and after any number of words of the next
  descriptor, the callback on the other core does not return; nor does it in the state
  in which the pass stops with a fatal error. When the designated core returns, its pass
  over \<open>__alt_instructions\<close> has completed, the flushes of all descriptors that are
  applied are recorded, in order, and only then is the flag set; in that state the callback
  on the other core returns, having executed one \<open>isb\<close> and changed nothing else.
  Whenever the callback on the other core returns, the flag it read was set and it has
  executed the \<open>isb\<close>. The order in which the hardware makes the stores and the flushes
  of one core visible to another is left to the platform (\<open>WRITE_ONCE\<close>,
  \<open>READ_ONCE\<close>, and the barriers in \<open>flush_icache_range\<close>); the states here are
  those of program order on the designated core.
\<close>

theorem other_cores_wait_for_completed_pass:
  assumes "cpu \<noteq> 0" and "patched s = 0"
  shows "(\<forall>pre post s1. alt_instructions e = pre @ post
            \<and> do_apply_alternatives e pre True s = Inr s1
            \<longrightarrow> apply_alternatives_multi_stop e cpu s1 = None)
       \<and> (\<forall>pre alt post s1 n sn. alt_instructions e = pre @ alt # post
            \<and> do_apply_alternatives e pre True s = Inr s1
            \<and> patch_insns e alt (orig_ptr alt) (repl_ptr alt) (lm_alias e (orig_ptr alt)) n 0
                 (pr_info_once s1) = Inr sn
            \<longrightarrow> apply_alternatives_multi_stop e cpu sn = None)
       \<and> (\<forall>b s2. apply_alternatives_multi_stop e 0 s = Some (Inl (b, s2))
            \<longrightarrow> apply_alternatives_multi_stop e cpu s2 = None)
       \<and> (\<forall>s'. apply_alternatives_multi_stop e 0 s = Some (Inr s') \<longrightarrow>
            (\<exists>s1. do_apply_alternatives e (alt_instructions e) True s = Inr s1
                  \<and> flushed s1 = flushed s @
                      map (\<lambda>alt. (orig_ptr alt,
                                   orig_ptr alt + 4 * of_nat (unat (alt_len alt) div 4)))
                        (filter (\<lambda>alt. cpus_have_cap e (cpufeature alt)) (alt_instructions e))
                  \<and> s' = s1\<lparr>patched := 1\<rparr>)
            \<and> apply_alternatives_multi_stop e cpu s' = Some (Inr (isb s'))
            \<and> isb s' = s'\<lparr>isb_count := isb_count s' + 1\<rparr>)
       \<and> (\<forall>t r. apply_alternatives_multi_stop e cpu t = Some r
            \<longrightarrow> patched t \<noteq> 0 \<and> r = Inr (isb t))"
proof -
  note other = other_core_waits_for_flag[OF assms(1)]
  have boundary: "apply_alternatives_multi_stop e cpu s1 = None"
    if "do_apply_alternatives e pre True s = Inr s1" for pre s1
    using do_apply_alternatives_patched[OF that] assms(2) by (simp add: other)
  have inside: "apply_alternatives_multi_stop e cpu sn = None"
    if pre: "do_apply_alternatives e pre True s = Inr s1"
      and sn: "patch_insns e alt (orig_ptr alt) (repl_ptr alt) (lm_alias e (orig_ptr alt)) n 0
                 (pr_info_once s1) = Inr sn"
    for pre alt s1 n sn
  proof -
    from do_apply_alternatives_patched[OF pre] assms(2) have "patched s1 = 0"
      by simp
    moreover from patch_insns_only_mem[OF sn] have "sn = (pr_info_once s1)\<lparr>mem := mem sn\<rparr>"
      by simp
    then have "patched sn = patched (pr_info_once s1)"
      by (auto dest: arg_cong[where f = patched])
    ultimately show ?thesis
      by (simp add: other pr_info_once_fields)
  qed
  have aborted: "apply_alternatives_multi_stop e cpu s2 = None"
    if "apply_alternatives_multi_stop e 0 s = Some (Inl (b, s2))" for b s2
  proof -
    from that assms(2)
    have "do_apply_alternatives e (alt_instructions e) True s = Inl (b, s2)"
      by (auto simp: apply_alternatives_multi_stop_def split: sum.splits)
    from do_apply_alternatives_patched[OF this] assms(2) show ?thesis
      by (simp add: other)
  qed
  have finished: "(\<exists>s1. do_apply_alternatives e (alt_instructions e) True s = Inr s1
                  \<and> flushed s1 = flushed s @
                      map (\<lambda>alt. (orig_ptr alt,
                                   orig_ptr alt + 4 * of_nat (unat (alt_len alt) div 4)))
                        (filter (\<lambda>alt. cpus_have_cap e (cpufeature alt)) (alt_instructions e))
                  \<and> s' = s1\<lparr>patched := 1\<rparr>)
            \<and> apply_alternatives_multi_stop e cpu s' = Some (Inr (isb s'))
            \<and> isb s' = s'\<lparr>isb_count := isb_count s' + 1\<rparr>"
    if "apply_alternatives_multi_stop e 0 s = Some (Inr s')" for s'
  proof -
    from that assms(2) obtain s1
      where s1: "do_apply_alternatives e (alt_instructions e) True s = Inr s1"
        and s': "s' = s1\<lparr>patched := 1\<rparr>"
      by (auto simp: apply_alternatives_multi_stop_def split: sum.splits)
    from s' have "patched s' \<noteq> 0"
      by simp
    then have "apply_alternatives_multi_stop e cpu s' = Some (Inr (isb s'))"
      by (simp add: other)
    with s1 s' do_apply_alternatives_flushed[OF s1] show ?thesis
      by (simp add: isb_def)
  qed
  have returned: "patched t \<noteq> 0 \<and> r = Inr (isb t)"
    if "apply_alternatives_multi_stop e cpu t = Some r" for t r
    using that by (auto simp: other split: if_splits)
  from boundary inside aborted finished returned show ?thesis
    by blast
qed

text \<open>
  On the sample platform core 1 does not return before the pass, and returns after one
  \<open>isb\<close> in the state the designated core leaves.
\<close>

theorem other_cores_wait_for_completed_pass_witness:
  "(1::nat) \<noteq> 0 \<and> patched sample_state = 0
   \<and> apply_alternatives_multi_stop sample_env 1 sample_state = None
   \<and> apply_alternatives_multi_stop sample_env 0 sample_state = Some (Inr sample_state_patched)
   \<and> apply_alternatives_multi_stop sample_env 1 sample_state_patched
        = Some (Inr (isb sample_state_patched))
   \<and> isb_count (isb sample_state_patched) = 1
   \<and> flushed sample_state_patched = [(0xffff000008100400, 0xffff000008100408)]"
proof -
  have p0: "patched sample_state = 0"
    by (simp add: sample_state_def)
  note t = other_cores_wait_for_completed_pass
    [where e = sample_env and cpu = 1 and s = sample_state, OF _ p0]
  have first: "apply_alternatives_multi_stop sample_env 0 sample_state
                 = Some (Inr sample_state_patched)"
    unfolding apply_alternatives_multi_stop_def sample_table sample_pass
    using p0 by (simp add: sample_state_patched_def)
  have "alt_instructions sample_env = [] @ alt_instructions sample_env
        \<and> do_apply_alternatives sample_env [] True sample_state = Inr sample_state"
    by simp
  with t have waits: "apply_alternatives_multi_stop sample_env 1 sample_state = None"
    by blast
  from t first
  have "apply_alternatives_multi_stop sample_env 1 sample_state_patched
          = Some (Inr (isb sample_state_patched))"
    by blast
  moreover have "isb_count (isb sample_state_patched) = 1"
    "flushed sample_state_patched = [(0xffff000008100400, 0xffff000008100408)]"
    by (simp_all add: isb_def sample_state_patched_def)
  ultimately show ?thesis
    using p0 first waits by simp
qed

subsection \<open>Words written and range flushed\<close>

text \<open>
  Claim C10. For a descriptor that is applied, with \<open>nr_inst = alt_len div 4\<close>:
  the flush recorded is \<open>[origptr, origptr + 4 * nr_inst)\<close>; each of the \<open>nr_inst\<close>
  words starting at the destination holds what \<open>get_alt_insn\<close> returned for the same
  slot of the replacement, read when the loop reached it (and read from the memory before
  the loop when the destination does not overlap the replacement block physically); no
  physical byte outside
  those \<open>4 * nr_inst\<close> bytes is written. In particular the trailing
  \<open>alt_len mod 4\<close> bytes of the destination keep their contents, and the corresponding
  bytes of the original range lie outside the flushed range.
\<close>

theorem applied_site_words_and_flush:
  assumes cap: "cpus_have_cap e (cpufeature alt)"
    and run: "apply_alt e lin alt s = Inr s'"
  shows "let nr_inst = unat (alt_len alt) div 4;
             updptr = (if lin then lm_alias e (orig_ptr alt) else orig_ptr alt)
         in flushed s' = flushed s @ [(orig_ptr alt, orig_ptr alt + 4 * of_nat nr_inst)]
          \<and> (\<forall>i < nr_inst. \<exists>si.
                patch_insns e alt (orig_ptr alt) (repl_ptr alt) updptr i 0 (pr_info_once s) = Inr si
                \<and> get_alt_insn e alt (orig_ptr alt + 4 * of_nat i) (repl_ptr alt + 4 * of_nat i)
                     (mem si)
                   = Inr (read_le32 e (mem s') (updptr + 4 * of_nat i)))
          \<and> (\<forall>a. (\<forall>k < 4 * nr_inst. a \<noteq> phys_addr e (updptr + of_nat k)) \<longrightarrow>
                mem s' a = mem s a)
          \<and> (\<forall>k. 4 * nr_inst \<le> k \<and> k < unat (alt_len alt) \<longrightarrow>
                mem s' (phys_addr e (updptr + of_nat k)) = mem s (phys_addr e (updptr + of_nat k))
                \<and> \<not> (orig_ptr alt \<le> orig_ptr alt + of_nat k
                       \<and> orig_ptr alt + of_nat k < orig_ptr alt + 4 * of_nat nr_inst))
          \<and> ((\<forall>k < 4 * nr_inst. \<forall>j < 4 * nr_inst.
                 phys_addr e (updptr + of_nat k) \<noteq> phys_addr e (repl_ptr alt + of_nat j)) \<longrightarrow>
              (\<forall>i < nr_inst.
                 get_alt_insn e alt (orig_ptr alt + 4 * of_nat i) (repl_ptr alt + 4 * of_nat i)
                   (mem s)
                 = Inr (read_le32 e (mem s') (updptr + 4 * of_nat i))))"
proof -
  define nr_inst where "nr_inst = unat (alt_len alt) div 4"
  define updptr where "updptr = (if lin then lm_alias e (orig_ptr alt) else orig_ptr alt)"
  define p where "p = patch_insns e alt (orig_ptr alt) (repl_ptr alt) updptr nr_inst 0
                        (pr_info_once s)"
  from cap run have len: "orig_len alt = alt_len alt"
    by (auto simp: apply_alt_def split: if_splits)
  from run obtain s2 where p: "p = Inr s2"
    and s': "s' = flush_icache_range (orig_ptr alt) (orig_ptr alt + 4 * of_nat nr_inst) s2"
    by (auto simp: apply_alt_applied[OF cap len] p_def nr_inst_def updptr_def split: sum.splits)
  have m: "mem s' = mem s2"
    by (simp add: s' flush_icache_range_def)
  from patch_insns_only_mem[OF p[unfolded p_def]]
  have "s2 = (pr_info_once s)\<lparr>mem := mem s2\<rparr>"
    by simp
  then have "flushed s2 = flushed (pr_info_once s)"
    by (rule ssubst) simp
  then have flush: "flushed s' = flushed s @ [(orig_ptr alt, orig_ptr alt + 4 * of_nat nr_inst)]"
    by (simp add: s' flush_icache_range_def pr_info_once_fields)
  have "unat (alt_len alt) < 2 ^ 8"
    using unsigned_less[of "alt_len alt"] by simp
  then have bound: "unat (alt_len alt) < 256"
    by simp
  then have small: "4 * nr_inst \<le> 4096"
    by (simp add: nr_inst_def)
  have slots: "\<forall>i < nr_inst. \<exists>si.
        patch_insns e alt (orig_ptr alt) (repl_ptr alt) updptr i 0 (pr_info_once s) = Inr si
        \<and> get_alt_insn e alt (orig_ptr alt + 4 * of_nat i) (repl_ptr alt + 4 * of_nat i) (mem si)
           = Inr (read_le32 e (mem s') (updptr + 4 * of_nat i))"
    using patch_insns_slot[OF p[unfolded p_def] _ small] by (simp add: m)
  have frame: "mem s' a = mem s a"
    if "\<forall>k < 4 * nr_inst. a \<noteq> phys_addr e (updptr + of_nat k)" for a
    using patch_insns_frame[OF p[unfolded p_def], of a] that
    by (simp add: m pr_info_once_fields)
  have tail: "mem s' (phys_addr e (updptr + of_nat k)) = mem s (phys_addr e (updptr + of_nat k))"
    if "4 * nr_inst \<le> k \<and> k < unat (alt_len alt)" for k
  proof (rule frame, intro allI impI)
    fix k' assume "k' < 4 * nr_inst"
    with that bound have "k < 4096" "k' < 4096" "k \<noteq> k'"
      by simp_all
    then show "phys_addr e (updptr + of_nat k) \<noteq> phys_addr e (updptr + of_nat k')"
      by (rule phys_addr_neq)
  qed
  have unflushed: "\<not> (orig_ptr alt \<le> orig_ptr alt + of_nat k
                       \<and> orig_ptr alt + of_nat k < orig_ptr alt + 4 * of_nat nr_inst)"
    if "4 * nr_inst \<le> k \<and> k < unat (alt_len alt)" for k
    using that bound by (intro tail_outside_flush) simp_all
  have clean: "\<forall>i < nr_inst.
        get_alt_insn e alt (orig_ptr alt + 4 * of_nat i) (repl_ptr alt + 4 * of_nat i) (mem s)
        = Inr (read_le32 e (mem s') (updptr + 4 * of_nat i))"
    if "\<forall>k < 4 * nr_inst. \<forall>j < 4 * nr_inst.
          phys_addr e (updptr + of_nat k) \<noteq> phys_addr e (repl_ptr alt + of_nat j)"
    using patch_insns_slot_disjoint[OF p[unfolded p_def] _ small that]
    by (simp add: m pr_info_once_fields)
  from flush slots frame tail unflushed clean show ?thesis
    unfolding Let_def nr_inst_def[symmetric] updptr_def[symmetric] by blast
qed

text \<open>
  \<open>odd_alt\<close> is six bytes long: one word is written, four bytes are flushed, and the
  bytes at offsets 4 and 5 are untouched.
\<close>

theorem applied_site_words_and_flush_witness:
  "cpus_have_cap sample_env (cpufeature odd_alt)
   \<and> unat (alt_len odd_alt) = 6
   \<and> apply_alt sample_env False odd_alt sample_state = Inr sample_state_odd
   \<and> flushed sample_state_odd = [(0xffff000008100400, 0xffff000008100404)]
   \<and> read_le32 sample_env (mem sample_state_odd) 0xffff000008100400 = 0x17FFFF00
   \<and> mem sample_state_odd (phys_addr sample_env 0xffff000008100404)
        = mem sample_state (phys_addr sample_env 0xffff000008100404)
   \<and> mem sample_state_odd (phys_addr sample_env 0xffff000008100405)
        = mem sample_state (phys_addr sample_env 0xffff000008100405)"
proof -
  have l: "unat (alt_len odd_alt) = 6" "orig_ptr odd_alt = 0xffff000008100400"
    by (simp_all add: odd_alt_def)
  have f: "flushed sample_state = []"
    by (simp add: sample_state_def)
  have r: "read_le32 sample_env (mem sample_state_odd) 0xffff000008100400 = 0x17FFFF00"
    by (simp add: sample_state_odd_def read_le32_write_le32_same)
  note t = applied_site_words_and_flush [OF odd_alt_cap sample_apply_odd]
  from t have "flushed sample_state_odd = [(0xffff000008100400, 0xffff000008100404)]"
    by (simp add: Let_def l f)
  moreover from t have "\<forall>k. 4 \<le> k \<and> k < 6 \<longrightarrow>
      mem sample_state_odd (phys_addr sample_env (0xffff000008100400 + of_nat k))
        = mem sample_state (phys_addr sample_env (0xffff000008100400 + of_nat k))"
    by (simp add: Let_def l)
  from this[rule_format, of 4] this[rule_format, of 5]
  have "mem sample_state_odd (phys_addr sample_env 0xffff000008100404)
        = mem sample_state (phys_addr sample_env 0xffff000008100404)"
    "mem sample_state_odd (phys_addr sample_env 0xffff000008100405)
        = mem sample_state (phys_addr sample_env 0xffff000008100405)"
    by simp_all
  ultimately show ?thesis
    using odd_alt_cap l(1) sample_apply_odd r by simp
qed

end
